theory Spec2Isabelle
  imports Main "HOL-Library.Code_Target_Nat"
begin


section \<open>Python strings\<close>

text \<open>
  A Python \<open>str\<close> is a sequence of Unicode code points, and \<open>len\<close>, slicing,
  \<open>str.isspace\<close> and the regular expressions of the source all work on code points.
  A string is therefore a list of code points (natural numbers); \<open>str\<close> turns an
  ASCII literal of this theory into one.
\<close>

type_synonym pystr = "nat list"

definition str :: "string \<Rightarrow> pystr" where
  "str s = map of_char s"

text \<open>\<open>s.startswith(p)\<close>\<close>

definition startswith :: "pystr \<Rightarrow> pystr \<Rightarrow> bool" where
  "startswith s p = (take (length p) s = p)"

text \<open>\<open>p in s\<close>: \<open>p\<close> occurs in \<open>s\<close> as a contiguous substring.\<close>

fun py_in :: "pystr \<Rightarrow> pystr \<Rightarrow> bool" where
  "py_in p [] = (p = [])"
| "py_in p (c # cs) = (startswith (c # cs) p \<or> py_in p cs)"

text \<open>
  \<open>str.isspace\<close> on one code point, which is also what \<open>\s\<close> matches in a
  \<open>str\<close> pattern: the characters CPython's \<open>_PyUnicode_IsWhitespace\<close> accepts.
\<close>

definition py_isspace :: "nat \<Rightarrow> bool" where
  "py_isspace c = ((9 \<le> c \<and> c \<le> 13) \<or> (28 \<le> c \<and> c \<le> 32) \<or> c = 133 \<or> c = 160
     \<or> c = 5760 \<or> (8192 \<le> c \<and> c \<le> 8202) \<or> c = 8232 \<or> c = 8233 \<or> c = 8239
     \<or> c = 8287 \<or> c = 12288)"

definition rstrip :: "pystr \<Rightarrow> pystr" where
  "rstrip s = rev (dropWhile py_isspace (rev s))"

definition lstrip :: "pystr \<Rightarrow> pystr" where
  "lstrip s = dropWhile py_isspace s"

definition strip :: "pystr \<Rightarrow> pystr" where
  "strip s = rstrip (lstrip s)"

text \<open>\<open>s.split(sep)\<close> for a one-character separator: always at least one piece.\<close>

fun split_on :: "nat \<Rightarrow> pystr \<Rightarrow> pystr list" where
  "split_on sep [] = [[]]"
| "split_on sep (c # cs) =
     (if c = sep then [] # split_on sep cs
      else (case split_on sep cs of
              [] \<Rightarrow> [[c]]
            | l # ls \<Rightarrow> (c # l) # ls))"

text \<open>\<open>sep.join(parts)\<close>\<close>

fun join :: "pystr \<Rightarrow> pystr list \<Rightarrow> pystr" where
  "join sep [] = []"
| "join sep [x] = x"
| "join sep (x # y # ys) = x @ sep @ join sep (y # ys)"

text \<open>
  \<open>s.replace(old, new)\<close>: the occurrences of \<open>old\<close> are replaced from left to
  right without overlap. Every call of the source has a non-empty \<open>old\<close>; for an
  empty one the model leaves the string as it is.
\<close>

function replace :: "pystr \<Rightarrow> pystr \<Rightarrow> pystr \<Rightarrow> pystr" where
  "replace old new [] = []"
| "replace old new (c # cs) =
     (if old \<noteq> [] \<and> startswith (c # cs) old
      then new @ replace old new (drop (length old) (c # cs))
      else c # replace old new cs)"
  by pat_completeness auto
termination
  by (relation "measure (\<lambda>(old, new, s). length s)") auto

text \<open>The decimal digits of a natural number, as \<open>str(i)\<close> gives them.\<close>

fun digits :: "nat \<Rightarrow> pystr" where
  "digits n = (if n < 10 then [48 + n] else digits (n div 10) @ [48 + n mod 10])"

declare digits.simps [simp del]

section \<open>The regular expressions of the source\<close>

text \<open>
  The source works by \<open>re.search\<close>, \<open>re.sub\<close>, \<open>re.findall\<close> and
  \<open>re.finditer\<close>. Its patterns use literals, character classes, greedy and lazy
  repetition of one character class, optional parts, ordered alternation, capture groups,
  back-references and the end anchor. The matcher below is the backtracking matcher of
  Python's \<open>re\<close> on exactly these constructs: it tries the alternatives in Python's
  order and returns the first way of matching.
\<close>

datatype cls =
    Any                 \<comment> \<open>\<open>.\<close> under \<open>re.DOTALL\<close>\<close>
  | NotNl               \<comment> \<open>\<open>.\<close> without \<open>re.DOTALL\<close>\<close>
  | OneOf "nat list"    \<comment> \<open>\<open>[abc]\<close>\<close>
  | NoneOf "nat list"   \<comment> \<open>\<open>[^abc]\<close>\<close>
  | Space               \<comment> \<open>\<open>\s\<close>\<close>

fun in_cls :: "cls \<Rightarrow> nat \<Rightarrow> bool" where
  "in_cls Any c = True"
| "in_cls NotNl c = (c \<noteq> 10)"
| "in_cls (OneOf cs) c = (c \<in> set cs)"
| "in_cls (NoneOf cs) c = (c \<notin> set cs)"
| "in_cls Space c = py_isspace c"

text \<open>
  Under \<open>re.IGNORECASE\<close> a pattern letter matches both of its ASCII cases and, for
  \<open>i\<close>, \<open>s\<close> and \<open>k\<close>, the non-ASCII letters that lower-case to it
  (U+0130, U+0131, U+017F, U+212A). Pattern letters of the source are lower-case ASCII.
\<close>

definition ci_chars :: "nat \<Rightarrow> nat list" where
  "ci_chars p =
     (if 97 \<le> p \<and> p \<le> 122
      then [p, p - 32] @ (if p = 105 then [304, 305] else if p = 115 then [383]
                          else if p = 107 then [8490] else [])
      else [p])"

fun startswith_ci :: "pystr \<Rightarrow> pystr \<Rightarrow> bool" where
  "startswith_ci s [] = True"
| "startswith_ci [] (p # ps) = False"
| "startswith_ci (c # cs) (p # ps) = (c \<in> set (ci_chars p) \<and> startswith_ci cs ps)"

datatype re =
    Lit pystr           \<comment> \<open>literal text\<close>
  | LitI pystr          \<comment> \<open>literal text under \<open>re.I\<close>\<close>
  | One cls             \<comment> \<open>one character of a class\<close>
  | Star cls            \<comment> \<open>\<open>c*\<close>, greedy\<close>
  | Plus cls            \<comment> \<open>\<open>c+\<close>, greedy\<close>
  | Lazy cls            \<comment> \<open>\<open>c*?\<close>, lazy\<close>
  | AtLeast nat cls     \<comment> \<open>\<open>c{n,}\<close>, greedy\<close>
  | Opt re              \<comment> \<open>\<open>r?\<close>, greedy\<close>
  | Alt re re           \<comment> \<open>\<open>r|r'\<close>, left first\<close>
  | Seq re re           \<comment> \<open>\<open>rr'\<close>\<close>
  | Grp nat re          \<comment> \<open>capture group number \<open>n\<close>\<close>
  | Ref nat             \<comment> \<open>back-reference \<open>\n\<close>\<close>
  | Eos                 \<comment> \<open>\<open>$\<close> without \<open>re.MULTILINE\<close>\<close>
  | Close nat pystr     \<comment> \<open>end of group \<open>n\<close>, opened where this text was left;
                            pushed by the matcher only\<close>

text \<open>The groups captured so far, most recent first.\<close>

type_synonym caps = "(nat \<times> pystr) list"

definition group :: "caps \<Rightarrow> nat \<Rightarrow> pystr" where
  "group e n = (case map_of e n of None \<Rightarrow> [] | Some t \<Rightarrow> t)"

fun weight :: "re \<Rightarrow> nat" where
  "weight (Opt r) = weight r + 1"
| "weight (Alt r r') = weight r + weight r' + 1"
| "weight (Seq r r') = weight r + weight r' + 1"
| "weight (Grp n r) = weight r + 2"
| "weight _ = 1"

text \<open>
  \<open>rmatch k s e\<close> matches the patterns \<open>k\<close> one after the other at the start of
  \<open>s\<close>, with the captures \<open>e\<close>; the result is the captures and the text left after
  the match, or \<open>None\<close> when no way of matching exists.
\<close>

function (sequential) rmatch :: "re list \<Rightarrow> pystr \<Rightarrow> caps \<Rightarrow> (caps \<times> pystr) option" where
  "rmatch [] s e = Some (e, s)"
| "rmatch (Lit l # k) s e =
     (if startswith s l then rmatch k (drop (length l) s) e else None)"
| "rmatch (LitI l # k) s e =
     (if startswith_ci s l then rmatch k (drop (length l) s) e else None)"
| "rmatch (One c # k) [] e = None"
| "rmatch (One c # k) (x # s) e = (if in_cls c x then rmatch k s e else None)"
| "rmatch (Star c # k) [] e = rmatch k [] e"
| "rmatch (Star c # k) (x # s) e =
     (if in_cls c x
      then (case rmatch (Star c # k) s e of
              Some r \<Rightarrow> Some r
            | None \<Rightarrow> rmatch k (x # s) e)
      else rmatch k (x # s) e)"
| "rmatch (Plus c # k) [] e = None"
| "rmatch (Plus c # k) (x # s) e = (if in_cls c x then rmatch (Star c # k) s e else None)"
| "rmatch (Lazy c # k) [] e = rmatch k [] e"
| "rmatch (Lazy c # k) (x # s) e =
     (case rmatch k (x # s) e of
        Some r \<Rightarrow> Some r
      | None \<Rightarrow> (if in_cls c x then rmatch (Lazy c # k) s e else None))"
| "rmatch (AtLeast n c # k) [] e = (if n = 0 then rmatch (Star c # k) [] e else None)"
| "rmatch (AtLeast n c # k) (x # s) e =
     (if n = 0 then rmatch (Star c # k) (x # s) e
      else if in_cls c x then rmatch (AtLeast (n - 1) c # k) s e
      else None)"
| "rmatch (Opt r # k) s e =
     (case rmatch (r # k) s e of
        Some r \<Rightarrow> Some r
      | None \<Rightarrow> rmatch k s e)"
| "rmatch (Alt r r' # k) s e =
     (case rmatch (r # k) s e of
        Some r \<Rightarrow> Some r
      | None \<Rightarrow> rmatch (r' # k) s e)"
| "rmatch (Seq r r' # k) s e = rmatch (r # r' # k) s e"
| "rmatch (Grp n r # k) s e = rmatch (r # Close n s # k) s e"
| "rmatch (Close n s0 # k) s e = rmatch k s ((n, take (length s0 - length s) s0) # e)"
| "rmatch (Ref n # k) s e =
     (case map_of e n of
        None \<Rightarrow> None
      | Some t \<Rightarrow> (if startswith s t then rmatch k (drop (length t) s) e else None))"
| "rmatch (Eos # k) s e = (if s = [] \<or> s = [10] then rmatch k s e else None)"
  by pat_completeness auto
termination
  by (relation "measures [\<lambda>(k, s, e). length s, \<lambda>(k, s, e). sum_list (map weight k),
                          \<lambda>(k, s, e). (case k of AtLeast n c # _ \<Rightarrow> Suc n | _ \<Rightarrow> 0)]")
     auto

text \<open>
  \<open>re.search(r, s)\<close>: the match at the leftmost position where one exists; the
  whole match is group 0.
\<close>

fun re_search :: "re \<Rightarrow> pystr \<Rightarrow> caps option" where
  "re_search r [] = map_option fst (rmatch [Grp 0 r] [] [])"
| "re_search r (c # cs) =
     (case rmatch [Grp 0 r] (c # cs) [] of
        Some (e, s') \<Rightarrow> Some e
      | None \<Rightarrow> re_search r cs)"

text \<open>
  \<open>re.sub(r, f, s)\<close> with a replacement function (a template such as
  \<open>r'**\2**'\<close> is the function that fills it in): the matches are found from left to
  right without overlap, each is replaced, and the text between them is kept. No pattern
  of the source matches the empty string; after an empty match the model copies one
  character and goes on.
\<close>

function re_sub :: "re \<Rightarrow> (caps \<Rightarrow> pystr) \<Rightarrow> pystr \<Rightarrow> pystr" where
  "re_sub r f [] = (case rmatch [Grp 0 r] [] [] of None \<Rightarrow> [] | Some (e, s') \<Rightarrow> f e)"
| "re_sub r f (c # cs) =
     (case rmatch [Grp 0 r] (c # cs) [] of
        None \<Rightarrow> c # re_sub r f cs
      | Some (e, s') \<Rightarrow>
          (if length s' < length (c # cs) then f e @ re_sub r f s'
           else f e @ c # re_sub r f cs))"
  by pat_completeness auto
termination
  by (relation "measure (\<lambda>(r, f, s). length s)") auto

text \<open>\<open>re.finditer(r, s)\<close>: the captures of the successive matches.\<close>

function re_finditer :: "re \<Rightarrow> pystr \<Rightarrow> caps list" where
  "re_finditer r [] = (case rmatch [Grp 0 r] [] [] of None \<Rightarrow> [] | Some (e, s') \<Rightarrow> [e])"
| "re_finditer r (c # cs) =
     (case rmatch [Grp 0 r] (c # cs) [] of
        None \<Rightarrow> re_finditer r cs
      | Some (e, s') \<Rightarrow>
          (if length s' < length (c # cs) then e # re_finditer r s'
           else e # re_finditer r cs))"
  by pat_completeness auto
termination
  by (relation "measure (\<lambda>(r, s). length s)") auto

text \<open>\<open>re.findall(r, s)\<close> for a pattern with exactly one group: the texts of group 1.\<close>

definition re_findall1 :: "re \<Rightarrow> pystr \<Rightarrow> pystr list" where
  "re_findall1 r s = map (\<lambda>e. group e 1) (re_finditer r s)"

section \<open>Source classification\<close>

datatype source_type = Wechat | Notion | Medium | Zhihu | General

text \<open>\<open>GeneralArticleFetcher._detect_source_type\<close>; the argument \<open>html\<close> is not used.\<close>

definition detect_source_type :: "pystr \<Rightarrow> pystr \<Rightarrow> source_type" where
  "detect_source_type url html =
     (if py_in (str ''mp.weixin.qq.com'') url then Wechat
      else if py_in (str ''notion.com'') url \<or> py_in (str ''notion.site'') url then Notion
      else if py_in (str ''medium.com'') url then Medium
      else if py_in (str ''zhuanlan.zhihu.com'') url then Zhihu
      else General)"

text \<open>
  The spec's reading of the classifier, to compare the code with: a fixed, ordered list
  of host fragments, the first one that occurs in the given text decides, and no match
  gives \<open>General\<close>.
\<close>

definition platform_fragments :: "(pystr \<times> source_type) list" where
  "platform_fragments =
     [(str ''mp.weixin.qq.com'', Wechat), (str ''notion.com'', Notion),
      (str ''notion.site'', Notion), (str ''medium.com'', Medium),
      (str ''zhuanlan.zhihu.com'', Zhihu)]"

definition classify_by_table :: "pystr \<Rightarrow> source_type" where
  "classify_by_table text =
     (case find (\<lambda>(f, t). py_in f text) platform_fragments of
        None \<Rightarrow> General
      | Some (f, t) \<Rightarrow> t)"

text \<open>
  The host of a URL, as the spec speaks of it: the text after the first \<open>//\<close> up to
  the next \<open>/\<close>, \<open>?\<close> or \<open>#\<close>, and nothing when the URL has no \<open>//\<close>.
\<close>

fun after_first :: "pystr \<Rightarrow> pystr \<Rightarrow> pystr option" where
  "after_first sep [] = (if sep = [] then Some [] else None)"
| "after_first sep (c # cs) =
     (if startswith (c # cs) sep then Some (drop (length sep) (c # cs))
      else after_first sep cs)"

definition url_host :: "pystr \<Rightarrow> pystr" where
  "url_host url =
     (case after_first (str ''//'') url of
        None \<Rightarrow> []
      | Some rest \<Rightarrow> takeWhile (\<lambda>c. c \<notin> set (str ''/?#'')) rest)"

section \<open>File names\<close>

text \<open>
  \<open>GeneralArticleFetcher._sanitize_filename\<close>. The first pattern is the class
  \<open>[<>:"/\\|?*]\<close>, written by its code points.
\<close>

definition forbidden_chars :: "nat list" where
  "forbidden_chars = [60, 62, 58, 34, 47, 92, 124, 63, 42]"

definition sanitize_filename :: "pystr \<Rightarrow> pystr" where
  "sanitize_filename title =
     (let filename = re_sub (One (OneOf forbidden_chars)) (\<lambda>e. []) title;
          filename = re_sub (Plus Space) (\<lambda>e. str ''_'') filename;
          filename = (if length filename > 100 then take 100 filename else filename)
      in if filename \<noteq> [] then filename else str ''article'')"

text \<open>The two substitutions of \<open>_sanitize_filename\<close>, before the cut to 100 characters.\<close>

definition sanitize_subs :: "pystr \<Rightarrow> pystr" where
  "sanitize_subs title =
     re_sub (Plus Space) (\<lambda>e. str ''_'') (re_sub (One (OneOf forbidden_chars)) (\<lambda>e. []) title)"

text \<open>
  The words of the specification for the second substitution, to compare the matcher
  with: every maximal run of whitespace characters becomes one underscore (written at the
  last character of the run), every other character stays.
\<close>

fun runs_to_underscore :: "pystr \<Rightarrow> pystr" where
  "runs_to_underscore [] = []"
| "runs_to_underscore [c] = (if py_isspace c then str ''_'' else [c])"
| "runs_to_underscore (c # d # s) =
     (if py_isspace c \<and> py_isspace d then runs_to_underscore (d # s)
      else if py_isspace c then str ''_'' @ runs_to_underscore (d # s)
      else c # runs_to_underscore (d # s))"

section \<open>The Markdown transform\<close>

text \<open>A sequence of patterns, and the two shapes most patterns of the source have.\<close>

fun seq :: "re list \<Rightarrow> re" where
  "seq [] = Lit []"
| "seq [r] = r"
| "seq (r # rs) = Seq r (seq rs)"

text \<open>\<open><name[^>]*>\<close>\<close>

definition tag_open :: "pystr \<Rightarrow> re" where
  "tag_open name = seq [Lit (str ''<'' @ name), Star (NoneOf (str ''>'')), Lit (str ''>'')]"

text \<open>\<open><name[^>]*>(.*?)</name>\<close> under \<open>re.DOTALL\<close>\<close>

definition element :: "pystr \<Rightarrow> re" where
  "element name =
     seq [tag_open name, Grp 1 (Lazy Any), Lit (str ''</'' @ name @ str ''>'')]"

definition nl :: pystr where
  "nl = [10]"

definition dquote :: pystr where
  "dquote = [34]"

text \<open>The default alternative text of an image, the two characters U+56FE U+7247.\<close>

definition default_alt :: pystr where
  "default_alt = [22270, 29255]"

text \<open>
  \<open>process_img_tag\<close>, the replacement function of \<open><img[^>]*>\<close>: the URL is the
  first match of \<open>(?:data-src|src)="([^"]+)"\<close> in the tag, the alternative text the
  first match of \<open>alt="([^"]*)"\<close>.
\<close>

definition pat_img_src :: re where
  "pat_img_src =
     seq [Alt (Lit (str ''data-src'')) (Lit (str ''src'')), Lit (str ''='' @ dquote),
          Grp 1 (Plus (NoneOf dquote)), Lit dquote]"

definition pat_img_alt :: re where
  "pat_img_alt = seq [Lit (str ''alt='' @ dquote), Grp 1 (Star (NoneOf dquote)), Lit dquote]"

definition process_img_tag :: "caps \<Rightarrow> pystr" where
  "process_img_tag m =
     (let full_match = group m 0 in
      case re_search pat_img_src full_match of
        None \<Rightarrow> []
      | Some src_match \<Rightarrow>
          (let url = group src_match 1;
               url = (if startswith url (str ''//'') then str ''https:'' @ url else url);
               alt = (case re_search pat_img_alt full_match of
                        Some alt_match \<Rightarrow> group alt_match 1
                      | None \<Rightarrow> default_alt)
           in nl @ nl @ str ''!['' @ alt @ str '']('' @ url @ str '')'' @ nl @ nl))"

definition convert_images :: "pystr \<Rightarrow> pystr" where
  "convert_images html =
     re_sub (seq [LitI (str ''<img''), Star (NoneOf (str ''>'')), Lit (str ''>'')])
       process_img_tag html"

text \<open>The headings, level 6 first: \<open><h{i}[^>]*>(.*?)</h{i}>\<close> becomes
  \<open>\n\n{"#" * i} \1\n\<close>.\<close>

definition convert_heading :: "nat \<Rightarrow> pystr \<Rightarrow> pystr" where
  "convert_heading i html =
     re_sub (element (str ''h'' @ digits i))
       (\<lambda>m. nl @ nl @ replicate i 35 @ str '' '' @ group m 1 @ nl) html"

definition convert_headings :: "pystr \<Rightarrow> pystr" where
  "convert_headings html = fold convert_heading [6, 5, 4, 3, 2, 1] html"

text \<open>\<open>process_blockquote\<close>\<close>

definition process_blockquote :: "caps \<Rightarrow> pystr" where
  "process_blockquote m =
     (let content = group m 1;
          lines = split_on 10 (strip content);
          result = fold (\<lambda>line result.
                      if strip line \<noteq> [] then result @ str ''> '' @ strip line @ nl
                      else result) lines nl
      in result @ nl)"

text \<open>\<open>replace_ol\<close>: the items are numbered from 1.\<close>

fun number_items :: "nat \<Rightarrow> pystr list \<Rightarrow> pystr" where
  "number_items i [] = []"
| "number_items i (item # items) =
     digits i @ str ''. '' @ strip item @ nl @ number_items (Suc i) items"

definition replace_ol :: "caps \<Rightarrow> pystr" where
  "replace_ol m =
     (let items = re_findall1 (element (str ''li'')) (group m 1)
      in nl @ number_items 1 items)"

text \<open>\<open>process_table\<close>: a separator row follows the first row.\<close>

definition pat_cell :: re where
  "pat_cell =
     seq [Lit (str ''<t''), One (OneOf (str ''dh'')), Star (NoneOf (str ''>'')), Lit (str ''>''),
          Grp 1 (Lazy Any), Lit (str ''</t''), One (OneOf (str ''dh'')), Lit (str ''>'')]"

definition pat_any_tag :: re where
  "pat_any_tag = seq [Lit (str ''<''), Plus (NoneOf (str ''>'')), Lit (str ''>'')]"

fun table_rows :: "nat \<Rightarrow> pystr list \<Rightarrow> pystr" where
  "table_rows i [] = []"
| "table_rows i (row # rows) =
     (let cells = re_findall1 pat_cell row;
          cell_text = map (\<lambda>c. strip (re_sub pat_any_tag (\<lambda>m. []) c)) cells
      in str ''| '' @ join (str '' | '') cell_text @ str '' |'' @ nl
         @ (if i = 0
            then str ''|'' @ join (str ''|'') (replicate (length cells) (str ''---''))
                 @ str ''|'' @ nl
            else [])
         @ table_rows (Suc i) rows)"

definition process_table :: "caps \<Rightarrow> pystr" where
  "process_table m =
     (let table_html = group m 0;
          rows = re_findall1 (element (str ''tr'')) table_html
      in nl @ table_rows 0 rows @ nl)"

text \<open>The entities and invisible characters that are replaced, in the source's order.\<close>

definition entity_table :: "(pystr \<times> pystr) list" where
  "entity_table =
     [(str ''&nbsp;'', str '' ''), (str ''&amp;'', str ''&''), (str ''&lt;'', str ''<''),
      (str ''&gt;'', str ''>''), (str ''&quot;'', dquote), (str ''&#39;'', [39]),
      (str ''&apos;'', [39]), ([160], str '' ''), ([8203], []), ([65279], [])]"

definition decode_entities :: "pystr \<Rightarrow> pystr" where
  "decode_entities html = fold (\<lambda>(old, new) h. replace old new h) entity_table html"

text \<open>
  The final cleanup: \<open>\n{3,}\<close> becomes two newlines, then every line is
  right-trimmed, then the whole text is trimmed.
\<close>

definition collapse_newlines :: "pystr \<Rightarrow> pystr" where
  "collapse_newlines html = re_sub (AtLeast 3 (OneOf nl)) (\<lambda>m. nl @ nl) html"

definition final_cleanup :: "pystr \<Rightarrow> pystr" where
  "final_cleanup html0 =
     (let html = collapse_newlines html0;
          lines = split_on 10 html;
          html = join nl (map rstrip lines)
      in strip html)"

text \<open>
  The rewrites of \<open>_html_to_markdown\<close> before the final cleanup, each on the result
  of the one before it, in the source's order.
\<close>

definition code_fence :: "caps \<Rightarrow> pystr" where
  "code_fence m = nl @ nl @ str ''```'' @ nl @ group m 1 @ nl @ str ''```'' @ nl"

definition markdown_rewrites :: "(pystr \<Rightarrow> pystr) list" where
  "markdown_rewrites =
     [re_sub (seq [Lit (str ''<!--''), Lazy Any, Lit (str ''-->'')]) (\<lambda>m. []),
      convert_images,
      convert_headings,
      re_sub (element (str ''section'')) (\<lambda>m. group m 1),
      re_sub (element (str ''p'')) (\<lambda>m. nl @ nl @ group m 1 @ nl),
      re_sub (seq [Lit (str ''<br''), Star Space, Opt (Lit (str ''/'')), Lit (str ''>'')])
        (\<lambda>m. str ''  '' @ nl),
      re_sub (seq [Lit (str ''<''), Grp 1 (Alt (Lit (str ''strong'')) (Lit (str ''b''))),
                   Star (NoneOf (str ''>'')), Lit (str ''>''), Grp 2 (Lazy Any),
                   Lit (str ''</''), Ref 1, Lit (str ''>'')])
        (\<lambda>m. str ''**'' @ group m 2 @ str ''**''),
      re_sub (seq [Lit (str ''<''), Grp 1 (Alt (Lit (str ''em'')) (Lit (str ''i''))),
                   Star (NoneOf (str ''>'')), Lit (str ''>''), Grp 2 (Lazy Any),
                   Lit (str ''</''), Ref 1, Lit (str ''>'')])
        (\<lambda>m. str ''*'' @ group m 2 @ str ''*''),
      re_sub (seq [Lit (str ''<a''), Star (NoneOf (str ''>'')), Lit (str ''href='' @ dquote),
                   Grp 1 (Star (NoneOf dquote)), Lit dquote, Star (NoneOf (str ''>'')),
                   Lit (str ''>''), Grp 2 (Lazy Any), Lit (str ''</a>'')])
        (\<lambda>m. str ''['' @ group m 2 @ str '']('' @ group m 1 @ str '')''),
      re_sub (element (str ''blockquote'')) process_blockquote,
      re_sub (element (str ''ul'')) (\<lambda>m. nl @ group m 1 @ nl),
      re_sub (element (str ''li'')) (\<lambda>m. str ''- '' @ group m 1 @ nl),
      re_sub (element (str ''ol'')) replace_ol,
      re_sub (seq [tag_open (str ''table''), Lazy Any, Lit (str ''</table>'')]) process_table,
      re_sub (seq [tag_open (str ''pre''), tag_open (str ''code''), Grp 1 (Lazy Any),
                   Lit (str ''</code></pre>'')]) code_fence,
      re_sub (element (str ''pre'')) code_fence,
      re_sub (element (str ''code'')) (\<lambda>m. str ''`'' @ group m 1 @ str ''`''),
      re_sub (seq [Lit (str ''<hr''), Star Space, Opt (Lit (str ''/'')), Lit (str ''>'')])
        (\<lambda>m. nl @ nl @ str ''---'' @ nl @ nl),
      re_sub (element (str ''span'')) (\<lambda>m. group m 1),
      re_sub (element (str ''div'')) (\<lambda>m. group m 1),
      re_sub pat_any_tag (\<lambda>m. []),
      decode_entities]"

text \<open>\<open>GeneralArticleFetcher._html_to_markdown\<close>\<close>

definition html_to_markdown :: "pystr \<Rightarrow> pystr" where
  "html_to_markdown html = final_cleanup (fold (\<lambda>f h. f h) markdown_rewrites html)"

section \<open>Title extraction\<close>

text \<open>
  The three extractors \<open>_extract_wechat_content\<close>, \<open>_extract_notion_content\<close> and
  \<open>_extract_general_content\<close> compute the title, the author and the content region by
  guarded regular-expression searches: every \<open>.group(1)\<close> stands under a test that the
  match exists, so none of them has a raising path. The title part is modelled here.
\<close>

text \<open>\<open><meta[^>]*ATTR="VALUE"[^>]*content="([^"]*)"\<close>\<close>

definition meta_content :: "pystr \<Rightarrow> pystr \<Rightarrow> re" where
  "meta_content attr val =
     seq [Lit (str ''<meta''), Star (NoneOf (str ''>'')),
          Lit (attr @ str ''='' @ dquote @ val @ dquote), Star (NoneOf (str ''>'')),
          Lit (str ''content='' @ dquote), Grp 1 (Star (NoneOf dquote)), Lit dquote]"

text \<open>\<open><h1[^>]*class="[^"]*rich_media_title[^"]*"[^>]*>(.*?)</h1>\<close> under \<open>re.DOTALL\<close>\<close>

definition pat_wechat_h1 :: re where
  "pat_wechat_h1 =
     seq [Lit (str ''<h1''), Star (NoneOf (str ''>'')), Lit (str ''class='' @ dquote),
          Star (NoneOf dquote), Lit (str ''rich_media_title''), Star (NoneOf dquote),
          Lit dquote, Star (NoneOf (str ''>'')), Lit (str ''>''), Grp 1 (Lazy Any),
          Lit (str ''</h1>'')]"

text \<open>\<open><title>(.*?)</title>\<close>, without \<open>re.DOTALL\<close>\<close>

definition pat_title :: re where
  "pat_title = seq [Lit (str ''<title>''), Grp 1 (Lazy NotNl), Lit (str ''</title>'')]"

text \<open>
  The chain \<open>m = re.search(p1, html); if not m: m = re.search(p2, html); ...\<close>: the
  first pattern of the list that matches somewhere gives the match.
\<close>

fun first_search :: "re list \<Rightarrow> pystr \<Rightarrow> caps option" where
  "first_search [] html = None"
| "first_search (p # ps) html =
     (case re_search p html of
        Some m \<Rightarrow> Some m
      | None \<Rightarrow> first_search ps html)"

text \<open>\<open>re.sub(r'<[^>]+>', '', m.group(1)).strip()\<close>\<close>

definition plain_text :: "caps \<Rightarrow> pystr" where
  "plain_text m = strip (re_sub pat_any_tag (\<lambda>e. []) (group m 1))"

text \<open>
  The platform suffixes removed from a title: \<open>\s*[-_|]\s*NAME.*$\<close>, where the name is
  the five characters U+5FAE U+4FE1 U+516C U+4F17 U+53F7 for WeChat, and \<open>Notion\<close>
  under \<open>re.I\<close> for Notion.
\<close>

definition pat_suffix :: "re \<Rightarrow> re" where
  "pat_suffix name =
     seq [Star Space, One (OneOf (str ''-_|'')), Star Space, name, Star NotNl, Eos]"

definition wechat_title_matchers :: "re list" where
  "wechat_title_matchers =
     [meta_content (str ''property'') (str ''og:title''), pat_wechat_h1, pat_title]"

definition wechat_title :: "pystr \<Rightarrow> pystr" where
  "wechat_title html =
     (case first_search wechat_title_matchers html of
        None \<Rightarrow> []
      | Some title_match \<Rightarrow>
          re_sub (pat_suffix (Lit [24494, 20449, 20844, 20247, 21495])) (\<lambda>e. [])
            (plain_text title_match))"

definition notion_title_matchers :: "re list" where
  "notion_title_matchers =
     [meta_content (str ''property'') (str ''og:title''),
      meta_content (str ''name'') (str ''title''), element (str ''h1''), pat_title]"

definition notion_title :: "pystr \<Rightarrow> pystr" where
  "notion_title html =
     (case first_search notion_title_matchers html of
        None \<Rightarrow> []
      | Some title_match \<Rightarrow>
          re_sub (pat_suffix (LitI (str ''notion''))) (\<lambda>e. []) (plain_text title_match))"

definition general_title_matchers :: "re list" where
  "general_title_matchers =
     [meta_content (str ''property'') (str ''og:title''),
      meta_content (str ''name'') (str ''title''),
      meta_content (str ''name'') (str ''twitter:title''), element (str ''h1''), pat_title]"

definition general_title :: "pystr \<Rightarrow> pystr" where
  "general_title html =
     (case first_search general_title_matchers html of
        None \<Rightarrow> []
      | Some title_match \<Rightarrow> plain_text title_match)"

text \<open>
  The extraction step of \<open>fetch_article\<close>: the extractor is chosen by the source type
  (the general one for every type but \<open>wechat\<close> and \<open>notion\<close>), and an empty title
  is replaced by the placeholder, the five characters U+672A U+547D U+540D U+6587 U+7AE0.
\<close>

definition title_matchers :: "source_type \<Rightarrow> re list" where
  "title_matchers st =
     (if st = Wechat then wechat_title_matchers
      else if st = Notion then notion_title_matchers
      else general_title_matchers)"

definition raw_title :: "source_type \<Rightarrow> pystr \<Rightarrow> pystr" where
  "raw_title st html =
     (if st = Wechat then wechat_title html
      else if st = Notion then notion_title html
      else general_title html)"

definition placeholder_title :: pystr where
  "placeholder_title = [26410, 21629, 21517, 25991, 31456]"

definition extract_title :: "source_type \<Rightarrow> pystr \<Rightarrow> pystr" where
  "extract_title st html =
     (let title = raw_title st html
      in if title = [] then placeholder_title else title)"

text \<open>
  \<open>fetch_article\<close> from the fetched text on, as far as the title goes: no article
  (\<open>None\<close>) when the fetched text is empty, else the article's title.
\<close>

definition fetch_article_title :: "pystr \<Rightarrow> pystr \<Rightarrow> pystr option" where
  "fetch_article_title url html =
     (if html = [] then None
      else Some (extract_title (detect_source_type url html) html))"

section \<open>Image URL discovery\<close>

text \<open>
  \<open>urllib.parse\<close> is not code of the repository. What \<open>_extract_image_urls\<close> uses
  of it (the scheme and the network location that \<open>urlparse\<close> finds in the base URL, and
  \<open>urljoin\<close>) is a parameter of the model.
\<close>

record urllib =
  urlparse_scheme :: "pystr \<Rightarrow> pystr"
  urlparse_netloc :: "pystr \<Rightarrow> pystr"
  urljoin :: "pystr \<Rightarrow> pystr \<Rightarrow> pystr"

text \<open>
  For examples: what \<open>urllib.parse\<close> gives on a base URL of the plain form
  \<open>scheme://host/path\<close> and a root-relative reference without dot segments.
\<close>

definition plain_urllib :: urllib where
  "plain_urllib =
     \<lparr>urlparse_scheme = takeWhile (\<lambda>c. c \<noteq> 58),
      urlparse_netloc = url_host,
      urljoin = (\<lambda>base url. takeWhile (\<lambda>c. c \<noteq> 58) base @ str ''://'' @ url_host base @ url)\<rparr>"

text \<open>\<open><img[^>]*src=["\']([^"\']+)["\']\<close> under \<open>re.I\<close>\<close>

definition pat_img_url :: re where
  "pat_img_url =
     seq [LitI (str ''<img''), Star (NoneOf (str ''>'')), LitI (str ''src=''),
          One (OneOf [34, 39]), Grp 1 (Plus (NoneOf [34, 39])), One (OneOf [34, 39])]"

text \<open>The texts of the \<open>src\<close> attributes, in the order of the tags.\<close>

definition image_srcs :: "pystr \<Rightarrow> pystr list" where
  "image_srcs html = re_findall1 pat_img_url html"

text \<open>The four \<open>url.replace\<close> calls, \<open>&amp;\<close> first.\<close>

definition decode_url_entities :: "pystr \<Rightarrow> pystr" where
  "decode_url_entities url =
     replace (str ''&quot;'') dquote
       (replace (str ''&gt;'') (str ''>'')
         (replace (str ''&lt;'') (str ''<'')
           (replace (str ''&amp;'') (str ''&'') url)))"

text \<open>
  The body of the loop for one \<open>src\<close> text: \<open>None\<close> where the source says
  \<open>continue\<close>. The base URL is optional; \<open>None\<close> and the empty string are false
  in the tests \<open>and base_url\<close> and \<open>elif base_url\<close>.
\<close>

definition normalize_image_url :: "urllib \<Rightarrow> pystr option \<Rightarrow> pystr \<Rightarrow> pystr option" where
  "normalize_image_url lib base_url url0 =
     (if startswith url0 (str ''data:'') then None
      else
        (let url = decode_url_entities url0 in
         if startswith url (str ''//'') then Some (str ''https:'' @ url)
         else if startswith url (str ''/'') then
           (case base_url of
              None \<Rightarrow> None
            | Some b \<Rightarrow>
                if py_in (str ''/_next/image?url='') url \<and> b \<noteq> []
                then Some (urlparse_scheme lib b @ str ''://'' @ urlparse_netloc lib b @ url)
                else if b \<noteq> [] then Some (urljoin lib b url)
                else None)
         else if \<not> startswith url (str ''http'') then None
         else Some url))"

text \<open>\<open>GeneralArticleFetcher._extract_image_urls\<close>\<close>

definition extract_image_urls :: "urllib \<Rightarrow> pystr \<Rightarrow> pystr option \<Rightarrow> pystr list" where
  "extract_image_urls lib html base_url =
     fold (\<lambda>url0 urls.
             case normalize_image_url lib base_url url0 of
               None \<Rightarrow> urls
             | Some url \<Rightarrow> if url \<notin> set urls then urls @ [url] else urls)
          (image_srcs html) []"

text \<open>
  The spec's words for the result: the URLs in first-seen order with duplicates removed,
  and an absolute URL, one that names its scheme and host.
\<close>

definition first_seen :: "'a list \<Rightarrow> 'a list" where
  "first_seen xs = rev (remdups (rev xs))"

definition is_absolute_url :: "pystr \<Rightarrow> bool" where
  "is_absolute_url url = (startswith url (str ''http://'') \<or> startswith url (str ''https://''))"

section \<open>Image download\<close>

text \<open>
  \<open>str.lower\<close> on the characters it meets in this model: the ASCII letters and the
  non-ASCII letters that \<open>re.I\<close> lets an ASCII pattern letter match (U+0130 lower-cases
  to \<open>i\<close> followed by U+0307; U+0131, U+017F are lower-case already).
\<close>

definition py_lower :: "pystr \<Rightarrow> pystr" where
  "py_lower s =
     concat (map (\<lambda>c. if 65 \<le> c \<and> c \<le> 90 then [c + 32]
                         else if c = 304 then [105, 775]
                         else if c = 8490 then [107]
                         else [c]) s)"

text \<open>\<open>ImageDownloader.get_image_extension\<close>\<close>

definition type_map :: "(pystr \<times> pystr) list" where
  "type_map =
     [(str ''image/jpeg'', str ''.jpg''), (str ''image/jpg'', str ''.jpg''),
      (str ''image/png'', str ''.png''), (str ''image/gif'', str ''.gif''),
      (str ''image/webp'', str ''.webp''), (str ''image/bmp'', str ''.bmp''),
      (str ''image/svg+xml'', str ''.svg''), (str ''image/avif'', str ''.avif'')]"

text \<open>\<open>\.(jpg|jpeg|png|gif|webp|bmp|svg|avif)(\?|$)\<close> under \<open>re.I\<close>\<close>

definition pat_url_ext :: re where
  "pat_url_ext =
     seq [Lit (str ''.''),
          Grp 1 (Alt (LitI (str ''jpg'')) (Alt (LitI (str ''jpeg'')) (Alt (LitI (str ''png''))
                (Alt (LitI (str ''gif'')) (Alt (LitI (str ''webp'')) (Alt (LitI (str ''bmp''))
                (Alt (LitI (str ''svg'')) (LitI (str ''avif''))))))))),
          Grp 2 (Alt (Lit (str ''?'')) Eos)]"

definition get_image_extension :: "pystr \<Rightarrow> pystr \<Rightarrow> pystr" where
  "get_image_extension url content_type =
     (case (if content_type \<noteq> [] then map_of type_map content_type else None) of
        Some ext \<Rightarrow> ext
      | None \<Rightarrow>
          (case re_search pat_url_ext url of
             Some ext_match \<Rightarrow> str ''.'' @ py_lower (group ext_match 1)
           | None \<Rightarrow> str ''.jpg''))"

text \<open>
  \<open>PurePath.suffix\<close> and \<open>PurePath.with_suffix\<close> on a file name: the suffix starts
  at the last dot, unless that dot is the first or the last character of the name.
\<close>

definition path_suffix :: "pystr \<Rightarrow> pystr" where
  "path_suffix name =
     (let after = rev (takeWhile (\<lambda>c. c \<noteq> 46) (rev name)) in
      if 46 \<in> set name \<and> after \<noteq> [] \<and> length after + 1 < length name
      then 46 # after else [])"

definition with_suffix :: "pystr \<Rightarrow> pystr \<Rightarrow> pystr" where
  "with_suffix name ext = take (length name - length (path_suffix name)) name @ ext"

definition image_suffixes :: "pystr list" where
  "image_suffixes =
     [str ''.jpg'', str ''.jpeg'', str ''.png'', str ''.gif'', str ''.webp'', str ''.bmp'',
      str ''.svg'', str ''.avif'']"

text \<open>\<open>datetime.now().strftime('%Y%m%d_%H%M%S_%f')\<close>\<close>

record datetime =
  year :: nat
  month :: nat
  day :: nat
  hour :: nat
  minute :: nat
  second :: nat
  microsecond :: nat

definition zpad :: "nat \<Rightarrow> nat \<Rightarrow> pystr" where
  "zpad w n = replicate (w - length (digits n)) 48 @ digits n"

definition timestamp :: "datetime \<Rightarrow> pystr" where
  "timestamp t =
     zpad 4 (year t) @ zpad 2 (month t) @ zpad 2 (day t) @ str ''_''
     @ zpad 2 (hour t) @ zpad 2 (minute t) @ zpad 2 (second t) @ str ''_''
     @ zpad 6 (microsecond t)"

text \<open>
  The world of the downloader, at the \<open>i\<close>-th pass of the loop (from 1): the clock,
  the outcome of \<open>urlopen\<close> and \<open>read\<close> (the \<open>Content-Type\<close> header and the
  bytes, or \<open>None\<close> for any exception: a malformed URL, a network error, a timeout, an
  error status), whether \<open>write_bytes\<close> succeeds, and whether \<open>mkdir\<close> does.
\<close>

record world =
  now :: "nat \<Rightarrow> datetime"
  http_get :: "nat \<Rightarrow> pystr \<Rightarrow> (pystr \<times> nat list) option"
  write_ok :: "nat \<Rightarrow> pystr \<Rightarrow> bool"
  mkdir_ok :: bool

text \<open>
  \<open>ImageDownloader.download_image\<close>, on the file name under the images directory:
  the final file name on success, \<open>None\<close> where the source returns
  \<open>(False, None)\<close> from its \<open>except Exception\<close>.
\<close>

definition download_image :: "world \<Rightarrow> nat \<Rightarrow> pystr \<Rightarrow> pystr \<Rightarrow> pystr option" where
  "download_image w i url filename =
     (case http_get w i url of
        None \<Rightarrow> None
      | Some (content_type, data) \<Rightarrow>
          (let ext = get_image_extension url content_type;
               name = (if py_lower (path_suffix filename) \<notin> set image_suffixes
                       then with_suffix filename ext else filename)
           in if write_ok w i name then Some name else None))"

text \<open>
  \<open>ImageDownloader.download_images\<close>. The state of the loop is the dictionary and,
  to speak of the order of processing, the list of the URLs attempted so far.
\<close>

record download_state =
  url_mapping :: "pystr \<rightharpoonup> pystr"
  attempts :: "pystr list"

definition entry_value :: "world \<Rightarrow> nat \<Rightarrow> pystr \<Rightarrow> pystr" where
  "entry_value w i url =
     (let filename = timestamp (now w i) @ str ''_'' @ digits i in
      case download_image w i url filename of
        Some name \<Rightarrow> str ''images/'' @ name
      | None \<Rightarrow> url)"

fun download_loop :: "world \<Rightarrow> nat \<Rightarrow> pystr list \<Rightarrow> download_state \<Rightarrow> download_state" where
  "download_loop w i [] st = st"
| "download_loop w i (url # rest) st =
     download_loop w (Suc i) rest
       (st\<lparr>url_mapping := (url_mapping st)(url \<mapsto> entry_value w i url),
           attempts := attempts st @ [url]\<rparr>)"

datatype download_error = MkdirFailed

definition download_images :: "world \<Rightarrow> pystr list \<Rightarrow> download_error + download_state" where
  "download_images w image_urls =
     (if image_urls = [] then Inr \<lparr>url_mapping = Map.empty, attempts = []\<rparr>
      else if \<not> mkdir_ok w then Inl MkdirFailed
      else Inr (download_loop w 1 image_urls \<lparr>url_mapping = Map.empty, attempts = []\<rparr>))"

text \<open>A world for examples: only \<open>https://h/a.png\<close> can be fetched.\<close>

definition example_world :: world where
  "example_world =
     \<lparr>now = (\<lambda>i. \<lparr>year = 2024, month = 1, day = 2, hour = 3, minute = 4, second = 5,
                   microsecond = 678\<rparr>),
      http_get = (\<lambda>i url. if url = str ''https://h/a.png''
                           then Some (str ''image/png'', [137, 80, 78, 71]) else None),
      write_ok = (\<lambda>i name. True),
      mkdir_ok = True\<rparr>"

section \<open>EPUB packaging\<close>

subsection \<open>The fallback tier\<close>

datatype compression = ZIP_STORED | ZIP_DEFLATED

record zip_entry =
  entry_name :: pystr
  entry_data :: "nat list"
  entry_compression :: compression

record epub_image =
  original_ref :: pystr
  epub_path :: pystr
  image_data :: "nat list"
  media_type :: pystr

text \<open>
  Where an image reference is looked for: \<open>images_dir.parent / img_ref\<close> or
  \<open>images_dir / img_ref\<close>. The file system and the image library are the world of
  the packager: whether the path exists, what \<open>_convert_image_to_png\<close> returns
  (\<open>None\<close> when the conversion raises), what \<open>read_bytes\<close> returns, the path's
  \<open>suffix\<close>, and whether writing the archive raises. Where \<open>exists\<close>,
  \<open>read_bytes\<close> or the writing raise, the world gives the text of the exception.
\<close>

datatype img_location = UnderParent pystr | UnderDir pystr

record filesystem =
  path_exists :: "img_location \<Rightarrow> pystr + bool"
  to_png :: "img_location \<Rightarrow> nat list option"
  read_bytes :: "img_location \<Rightarrow> pystr + nat list"
  suffix_of :: "img_location \<Rightarrow> pystr"
  zip_error :: "pystr option"

text \<open>\<open>!\[[^\]]*\]\(([^)]+)\)\<close>\<close>

definition pat_md_image :: re where
  "pat_md_image =
     seq [Lit (str ''!['') , Star (NoneOf (str '']'')), Lit (str '']('') ,
          Grp 1 (Plus (NoneOf (str '')''))), Lit (str '')'')]"

text \<open>\<open>EpubConverter._get_media_type\<close>\<close>

definition media_types :: "(pystr \<times> pystr) list" where
  "media_types =
     [(str ''.jpg'', str ''image/jpeg''), (str ''.jpeg'', str ''image/jpeg''),
      (str ''.png'', str ''image/png''), (str ''.gif'', str ''image/gif''),
      (str ''.webp'', str ''image/webp''), (str ''.svg'', str ''image/svg+xml''),
      (str ''.avif'', str ''image/avif''), (str ''.bmp'', str ''image/bmp'')]"

definition get_media_type :: "pystr \<Rightarrow> pystr" where
  "get_media_type filename =
     (case map_of media_types (py_lower (path_suffix filename)) of
        Some t \<Rightarrow> t
      | None \<Rightarrow> str ''application/octet-stream'')"

text \<open>
  The loop over the image references of \<open>convert_to_epub\<close>, from index \<open>i\<close>: a
  reference that starts with \<open>http\<close> or whose file does not exist is passed over; an
  exception of \<open>exists\<close> or \<open>read_bytes\<close> leaves the loop (\<open>Inl\<close>).
\<close>

definition locate :: "pystr \<Rightarrow> img_location option" where
  "locate img_ref =
     (if startswith img_ref (str ''images/'') then Some (UnderParent img_ref)
      else if \<not> startswith img_ref (str ''http'') then Some (UnderDir img_ref)
      else None)"

definition image_record :: "filesystem \<Rightarrow> nat \<Rightarrow> pystr \<Rightarrow> img_location \<Rightarrow> pystr + epub_image" where
  "image_record fs i img_ref img_path =
     (case (case to_png fs img_path of
              Some png_data \<Rightarrow> if png_data \<noteq> [] then Some png_data else None
            | None \<Rightarrow> None) of
        Some png_data \<Rightarrow>
          Inr \<lparr>original_ref = img_ref,
               epub_path = str ''images/img_'' @ digits i @ str ''.png'',
               image_data = png_data, media_type = str ''image/png''\<rparr>
      | None \<Rightarrow>
          (case read_bytes fs img_path of
             Inl e \<Rightarrow> Inl e
           | Inr img_data \<Rightarrow>
               Inr \<lparr>original_ref = img_ref,
                    epub_path = str ''images/img_'' @ digits i @ suffix_of fs img_path,
                    image_data = img_data,
                    media_type = get_media_type (suffix_of fs img_path)\<rparr>))"

fun collect_images :: "filesystem \<Rightarrow> nat \<Rightarrow> pystr list \<Rightarrow> pystr + epub_image list" where
  "collect_images fs i [] = Inr []"
| "collect_images fs i (img_ref # refs) =
     (case locate img_ref of
        None \<Rightarrow> collect_images fs (Suc i) refs
      | Some img_path \<Rightarrow>
          (case path_exists fs img_path of
             Inl e \<Rightarrow> Inl e
           | Inr present \<Rightarrow>
               if \<not> present then collect_images fs (Suc i) refs
               else (case image_record fs i img_ref img_path of
                       Inl e \<Rightarrow> Inl e
                     | Inr img \<Rightarrow>
                         (case collect_images fs (Suc i) refs of
                            Inl e \<Rightarrow> Inl e
                          | Inr imgs \<Rightarrow> Inr (img # imgs)))))"

text \<open>
  The texts of the five documents come from the template functions
  (\<open>_create_container_xml\<close>, \<open>_create_content_opf\<close>, \<open>_create_nav_xhtml\<close>,
  \<open>_create_toc_ncx\<close>, \<open>_create_content_xhtml\<close>); here they are given.
\<close>

record documents =
  container_xml :: "nat list"
  content_opf :: "epub_image list \<Rightarrow> nat list"
  nav_xhtml :: "nat list"
  toc_ncx :: "nat list"
  content_xhtml :: "epub_image list \<Rightarrow> nat list"

text \<open>
  The \<open>writestr\<close> calls, in order. The archive is opened with \<open>ZIP_DEFLATED\<close>,
  which is the compression of every entry written without a \<open>compress_type\<close>.
\<close>

definition image_zip_entry :: "epub_image \<Rightarrow> zip_entry" where
  "image_zip_entry img =
     \<lparr>entry_name = str ''OEBPS/'' @ epub_path img, entry_data = image_data img,
      entry_compression = ZIP_DEFLATED\<rparr>"

definition write_archive :: "documents \<Rightarrow> epub_image list \<Rightarrow> zip_entry list" where
  "write_archive docs images =
     [\<lparr>entry_name = str ''mimetype'', entry_data = str ''application/epub+zip'',
       entry_compression = ZIP_STORED\<rparr>,
      \<lparr>entry_name = str ''META-INF/container.xml'', entry_data = container_xml docs,
       entry_compression = ZIP_DEFLATED\<rparr>,
      \<lparr>entry_name = str ''OEBPS/content.opf'', entry_data = content_opf docs images,
       entry_compression = ZIP_DEFLATED\<rparr>,
      \<lparr>entry_name = str ''OEBPS/nav.xhtml'', entry_data = nav_xhtml docs,
       entry_compression = ZIP_DEFLATED\<rparr>,
      \<lparr>entry_name = str ''OEBPS/toc.ncx'', entry_data = toc_ncx docs,
       entry_compression = ZIP_DEFLATED\<rparr>,
      \<lparr>entry_name = str ''OEBPS/content.xhtml'', entry_data = content_xhtml docs images,
       entry_compression = ZIP_DEFLATED\<rparr>]
     @ map image_zip_entry images"

text \<open>
  The fallback tier of \<open>convert_to_epub\<close> (the \<open>try\<close> block): the archive written,
  or the text of the exception. \<open>has_images_dir\<close> is the truth value of
  \<open>images_dir\<close>.
\<close>

definition fallback_tier :: "filesystem \<Rightarrow> documents \<Rightarrow> bool \<Rightarrow> pystr \<Rightarrow> pystr + zip_entry list" where
  "fallback_tier fs docs has_images_dir md_content =
     (let image_refs = re_findall1 pat_md_image md_content in
      case (if has_images_dir \<and> image_refs \<noteq> [] then collect_images fs 0 image_refs
            else Inr []) of
        Inl e \<Rightarrow> Inl e
      | Inr images \<Rightarrow>
          (case zip_error fs of
             Some e \<Rightarrow> Inl e
           | None \<Rightarrow> Inr (write_archive docs images)))"

subsection \<open>The delegate tier and the two-tier strategy\<close>

record proc_result =
  returncode :: int
  stderr :: pystr

text \<open>
  \<open>pathlib\<close> is not code of the repository. What the converter returns is a text made
  by it from the \<open>output_path\<close> argument: \<open>str(Path(output_path))\<close>, the path in
  the normal form of the platform, and \<open>str(Path(output_path).absolute())\<close>, that path
  made absolute against the current directory. Both are parameters of the model.
\<close>

record pathlib =
  path_str :: "pystr \<Rightarrow> pystr"
  path_absolute :: "pystr \<Rightarrow> pystr"

text \<open>
  The world of \<open>_convert_with_pandoc\<close>: the path \<open>_find_pandoc\<close> finds, an
  exception before the first run (temporary directory, staging of the images, writing
  \<open>content.md\<close>, making the output path absolute and creating its directory), the two
  runs of the tool (the text of the exception if \<open>subprocess.run\<close> raises), whether the
  first run left a non-empty \<open>content.html\<close>, whether the second left
  \<open>output.epub\<close> and its size, and an exception of the final copy.
\<close>

record pandoc_world =
  pandoc_path :: "pystr option"
  prepare_error :: "pystr option"
  stage1 :: "pystr + proc_result"
  stage1_output_ok :: bool
  stage2 :: "pystr + proc_result"
  epub_exists :: bool
  epub_size :: nat
  copy_error :: "pystr option"

text \<open>\<open>EpubConverter._convert_with_pandoc\<close>: the pair \<open>(success, detail)\<close>.\<close>

definition convert_with_pandoc :: "pathlib \<Rightarrow> pandoc_world \<Rightarrow> pystr \<Rightarrow> bool \<times> pystr" where
  "convert_with_pandoc pl w output_path =
     (case pandoc_path w of
        None \<Rightarrow> (False, str ''Pandoc not found'')
      | Some pandoc \<Rightarrow>
          (case prepare_error w of
             Some e \<Rightarrow> (False, e)
           | None \<Rightarrow>
               (case stage1 w of
                  Inl e \<Rightarrow> (False, e)
                | Inr result1 \<Rightarrow>
                    if returncode result1 \<noteq> 0
                    then (False, str ''Pandoc MD->HTML failed: '' @ take 200 (stderr result1))
                    else
                      (case stage2 w of
                         Inl e \<Rightarrow> (False, e)
                       | Inr result2 \<Rightarrow>
                           if returncode result2 \<noteq> 0
                           then (False, str ''Pandoc HTML->EPUB failed: ''
                                        @ take 200 (stderr result2))
                           else if \<not> epub_exists w \<or> epub_size w = 0
                           then (False, str ''EPUB file was not created or is empty'')
                           else (case copy_error w of
                                   Some e \<Rightarrow> (False, e)
                                 | None \<Rightarrow> (True, path_absolute pl output_path))))))"

text \<open>
  \<open>EpubConverter.convert_to_epub\<close>: the pair it returns, the archive the fallback
  tier wrote (if it ran and succeeded), and whether the fallback tier ran.
  \<open>manual_generation\<close> is its second half, from the log line of the manual
  generation on.
\<close>

record epub_outcome =
  returned :: "bool \<times> pystr"
  archive :: "zip_entry list option"
  fallback_ran :: bool

definition manual_generation ::
  "pathlib \<Rightarrow> filesystem \<Rightarrow> documents \<Rightarrow> bool \<Rightarrow> pystr \<Rightarrow> pystr \<Rightarrow> epub_outcome" where
  "manual_generation pl fs docs has_images_dir md_content output_path =
     (case fallback_tier fs docs has_images_dir md_content of
        Inr entries \<Rightarrow>
          \<lparr>returned = (True, path_str pl output_path), archive = Some entries,
           fallback_ran = True\<rparr>
      | Inl e \<Rightarrow> \<lparr>returned = (False, e), archive = None, fallback_ran = True\<rparr>)"

definition convert_to_epub ::
  "pathlib \<Rightarrow> pandoc_world \<Rightarrow> filesystem \<Rightarrow> documents \<Rightarrow> bool \<Rightarrow> pystr \<Rightarrow> pystr
     \<Rightarrow> epub_outcome" where
  "convert_to_epub pl w fs docs has_images_dir md_content output_path =
     (if pandoc_path w \<noteq> None
      then (case convert_with_pandoc pl w output_path of
              (success, result) \<Rightarrow>
                if success
                then \<lparr>returned = (True, result), archive = None, fallback_ran = False\<rparr>
                else manual_generation pl fs docs has_images_dir md_content output_path)
      else manual_generation pl fs docs has_images_dir md_content output_path)"

text \<open>Worlds for examples.\<close>

definition example_fs :: filesystem where
  "example_fs =
     \<lparr>path_exists = (\<lambda>p. Inr (p = UnderParent (str ''images/a.png'')
                               \<or> p = UnderDir (str ''b.gif''))),
      to_png = (\<lambda>p. if p = UnderParent (str ''images/a.png'') then Some [137, 80] else None),
      read_bytes = (\<lambda>p. Inr [71, 73, 70]),
      suffix_of = (\<lambda>p. str ''.gif''),
      zip_error = None\<rparr>"

definition example_docs :: documents where
  "example_docs =
     \<lparr>container_xml = str ''<container/>'', content_opf = (\<lambda>images. str ''<package/>''),
      nav_xhtml = str ''<nav/>'', toc_ncx = str ''<ncx/>'',
      content_xhtml = (\<lambda>images. str ''<html/>'')\<rparr>"

definition example_pandoc :: pandoc_world where
  "example_pandoc =
     \<lparr>pandoc_path = Some (str ''/usr/bin/pandoc''), prepare_error = None,
      stage1 = Inr \<lparr>returncode = 0, stderr = []\<rparr>, stage1_output_ok = False,
      stage2 = Inr \<lparr>returncode = 0, stderr = []\<rparr>, epub_exists = True, epub_size = 2048,
      copy_error = None\<rparr>"

text \<open>
  For examples: \<open>pathlib\<close> on a POSIX system with the current directory
  \<open>/home/user\<close>, on path texts that are in normal form already.
\<close>

definition example_pathlib :: pathlib where
  "example_pathlib =
     \<lparr>path_str = (\<lambda>p. p),
      path_absolute = (\<lambda>p. if startswith p (str ''/'') then p else str ''/home/user/'' @ p)\<rparr>"

section \<open>Facts about strings and the matcher\<close>

lemma startswith_iff: "startswith s p \<longleftrightarrow> (\<exists>b. s = p @ b)"
  unfolding startswith_def
  by (metis append_eq_conv_conj append_take_drop_id)

lemma py_in_iff: "py_in p s \<longleftrightarrow> (\<exists>a b. s = a @ p @ b)"
proof (induction s)
  case Nil
  then show ?case by auto
next
  case (Cons c cs)
  show ?case
  proof
    assume "py_in p (c # cs)"
    then consider "startswith (c # cs) p" | "py_in p cs" by auto
    then show "\<exists>a b. c # cs = a @ p @ b"
    proof cases
      case 1
      then obtain b where "c # cs = p @ b" by (auto simp: startswith_iff)
      then have "c # cs = [] @ p @ b" by simp
      then show ?thesis by blast
    next
      case 2
      with Cons.IH obtain a b where "cs = a @ p @ b" by auto
      then have "c # cs = (c # a) @ p @ b" by simp
      then show ?thesis by blast
    qed
  next
    assume "\<exists>a b. c # cs = a @ p @ b"
    then obtain a b where ab: "c # cs = a @ p @ b" by blast
    show "py_in p (c # cs)"
    proof (cases a)
      case Nil
      with ab have "startswith (c # cs) p" by (auto simp: startswith_iff)
      then show ?thesis by simp
    next
      case (Cons x a')
      with ab have "cs = a' @ p @ b" by simp
      with Cons.IH have "py_in p cs" by blast
      then show ?thesis by simp
    qed
  qed
qed

lemma dropWhile_shorter: "length (dropWhile P t) < Suc (length t)"
  using length_dropWhile_le [of P t] by simp

lemma rmatch_star_close:
  "rmatch [Star c, Close n s0] s e =
     Some ((n, take (length s0 - length (dropWhile (in_cls c) s)) s0) # e, dropWhile (in_cls c) s)"
  by (induction s) auto

lemma re_sub_one_delete: "re_sub (One c) (\<lambda>e. []) s = filter (\<lambda>x. \<not> in_cls c x) s"
  by (induction s) auto

lemma re_sub_plus_Nil: "re_sub (Plus c) f [] = []"
  by simp

lemma re_sub_plus_Cons:
  "re_sub (Plus c) f (x # t) =
     (if in_cls c x
      then f [(0, take (Suc (length t) - length (dropWhile (in_cls c) t)) (x # t))]
           @ re_sub (Plus c) f (dropWhile (in_cls c) t)
      else x # re_sub (Plus c) f t)"
  by (simp add: rmatch_star_close dropWhile_shorter del: take_Suc_Cons)

text \<open>
  Replacing every run of a class by a fixed text outside the class leaves no character of
  the class, and keeps any property that the text and the characters of the input have.
\<close>

lemma re_sub_plus_chars:
  assumes u: "\<forall>x \<in> set u. \<not> in_cls c x \<and> Q x"
  shows "\<forall>x \<in> set s. Q x \<Longrightarrow> \<forall>x \<in> set (re_sub (Plus c) (\<lambda>e. u) s). \<not> in_cls c x \<and> Q x"
proof (induction s rule: length_induct)
  case (1 s)
  show ?case
  proof (cases s)
    case Nil
    then show ?thesis by (simp only: re_sub_plus_Nil) simp
  next
    case (Cons x t)
    have Qt: "\<forall>y \<in> set t. Q y" and Qx: "Q x" using "1.prems" Cons by auto
    show ?thesis
    proof (cases "in_cls c x")
      case True
      let ?d = "dropWhile (in_cls c) t"
      have "length ?d < length s" using Cons dropWhile_shorter [of "in_cls c" t] by simp
      moreover have "\<forall>y \<in> set ?d. Q y" using Qt set_dropWhileD by fast
      ultimately have "\<forall>y \<in> set (re_sub (Plus c) (\<lambda>e. u) ?d). \<not> in_cls c y \<and> Q y"
        using "1.IH" by blast
      moreover have "re_sub (Plus c) (\<lambda>e. u) s = u @ re_sub (Plus c) (\<lambda>e. u) ?d"
        unfolding Cons re_sub_plus_Cons using True by simp
      ultimately show ?thesis using u by auto
    next
      case False
      have "length t < length s" using Cons by simp
      then have "\<forall>y \<in> set (re_sub (Plus c) (\<lambda>e. u) t). \<not> in_cls c y \<and> Q y"
        using "1.IH" Qt by blast
      moreover have "re_sub (Plus c) (\<lambda>e. u) s = x # re_sub (Plus c) (\<lambda>e. u) t"
        unfolding Cons re_sub_plus_Cons using False by simp
      ultimately show ?thesis using False Qx by auto
    qed
  qed
qed

section \<open>Source classification: the fragments are looked for in the whole URL\<close>

lemma after_first_part: "after_first sep s = Some r \<Longrightarrow> \<exists>a. s = a @ r"
proof (induction s)
  case Nil
  then show ?case by (auto split: if_splits)
next
  case (Cons c cs)
  show ?case
  proof (cases "startswith (c # cs) sep")
    case True
    with Cons.prems have "r = drop (length sep) (c # cs)" by simp
    then have "c # cs = take (length sep) (c # cs) @ r" by simp
    then show ?thesis by blast
  next
    case False
    with Cons.prems have "after_first sep cs = Some r" by simp
    with Cons.IH obtain a where "cs = a @ r" by blast
    then have "c # cs = (c # a) @ r" by simp
    then show ?thesis by blast
  qed
qed

lemma url_host_part: "\<exists>a b. url = a @ url_host url @ b"
proof (cases "after_first (str ''//'') url")
  case None
  then have "url_host url = []" by (simp add: url_host_def)
  then have "url = [] @ url_host url @ url" by simp
  then show ?thesis by blast
next
  case (Some r)
  then obtain a where a: "url = a @ r" using after_first_part by blast
  let ?P = "\<lambda>c. c \<notin> set (str ''/?#'')"
  have "url_host url = takeWhile ?P r" using Some by (simp add: url_host_def)
  then have "url = a @ url_host url @ dropWhile ?P r" using a by simp
  then show ?thesis by blast
qed

lemma py_in_url_host: "py_in f (url_host url) \<Longrightarrow> py_in f url"
proof -
  assume "py_in f (url_host url)"
  then obtain a b where h: "url_host url = a @ f @ b" by (auto simp: py_in_iff)
  obtain a' b' where "url = a' @ url_host url @ b'" using url_host_part by blast
  with h have "url = (a' @ a) @ f @ (b @ b')" by simp
  then show ?thesis unfolding py_in_iff by blast
qed

lemma detect_eq_table: "detect_source_type url html = classify_by_table url"
  by (simp add: detect_source_type_def classify_by_table_def platform_fragments_def)

lemma table_general_iff:
  "classify_by_table t = General \<longleftrightarrow> (\<forall>(f, ty) \<in> set platform_fragments. \<not> py_in f t)"
  by (simp add: classify_by_table_def platform_fragments_def)

text \<open>
  C1, as stated, fails: the URL \<open>https://example.com/?from=medium.com\<close> has the host
  \<open>example.com\<close>, which contains none of the five fragments, and is classified
  \<open>medium\<close>, not \<open>general\<close>, because \<open>medium.com\<close> occurs in its query.
\<close>

theorem detect_source_type_host_counterexample:
  "url_host (str ''https://example.com/?from=medium.com'') = str ''example.com''
   \<and> \<not> py_in (str ''mp.weixin.qq.com'') (str ''example.com'')
   \<and> \<not> py_in (str ''notion.com'') (str ''example.com'')
   \<and> \<not> py_in (str ''notion.site'') (str ''example.com'')
   \<and> \<not> py_in (str ''medium.com'') (str ''example.com'')
   \<and> \<not> py_in (str ''zhuanlan.zhihu.com'') (str ''example.com'')
   \<and> detect_source_type (str ''https://example.com/?from=medium.com'') [] = Medium
   \<and> detect_source_type (str ''https://example.com/?from=medium.com'') [] \<noteq> General"
  by code_simp

text \<open>
  C1, amended: the classifier looks for the fragments anywhere in the URL string. It
  returns the profile of the first fragment of the fixed list (mp.weixin.qq.com,
  notion.com, notion.site, medium.com, zhuanlan.zhihu.com) that occurs in the URL, and
  \<open>general\<close> exactly when none of them occurs in the URL. Since the host is a part
  of the URL, a URL whose host contains a fragment is never classified \<open>general\<close>, and
  a host that contains mp.weixin.qq.com gives \<open>wechat\<close>. The function is total: it
  has a result for every string.
\<close>

theorem detect_source_type_by_url_text:
  "detect_source_type url html = classify_by_table url
   \<and> (detect_source_type url html = General
        \<longleftrightarrow> (\<forall>(f, ty) \<in> set platform_fragments. \<not> py_in f url))
   \<and> (classify_by_table (url_host url) \<noteq> General \<longrightarrow> detect_source_type url html \<noteq> General)
   \<and> (py_in (str ''mp.weixin.qq.com'') (url_host url) \<longrightarrow> detect_source_type url html = Wechat)"
proof (intro conjI impI)
  show "detect_source_type url html = classify_by_table url"
    by (rule detect_eq_table)
  show "detect_source_type url html = General
          \<longleftrightarrow> (\<forall>(f, ty) \<in> set platform_fragments. \<not> py_in f url)"
    unfolding detect_eq_table by (rule table_general_iff)
  show "detect_source_type url html \<noteq> General" if "classify_by_table (url_host url) \<noteq> General"
    using that unfolding detect_eq_table table_general_iff using py_in_url_host by blast
  show "detect_source_type url html = Wechat" if "py_in (str ''mp.weixin.qq.com'') (url_host url)"
    using py_in_url_host [OF that] by (simp add: detect_source_type_def)
qed

theorem detect_source_type_by_url_text_witness:
  "py_in (str ''mp.weixin.qq.com'') (url_host (str ''https://mp.weixin.qq.com/s/abc''))
   \<and> classify_by_table (url_host (str ''https://mp.weixin.qq.com/s/abc'')) \<noteq> General
   \<and> detect_source_type (str ''https://mp.weixin.qq.com/s/abc'') [] = Wechat
   \<and> detect_source_type (str ''https://mp.weixin.qq.com/s/abc'') [] \<noteq> General"
proof -
  have h1: "py_in (str ''mp.weixin.qq.com'') (url_host (str ''https://mp.weixin.qq.com/s/abc''))"
    by code_simp
  have h2: "classify_by_table (url_host (str ''https://mp.weixin.qq.com/s/abc'')) \<noteq> General"
    by code_simp
  from detect_source_type_by_url_text [of "str ''https://mp.weixin.qq.com/s/abc''" "[]"] h1 h2
  show ?thesis by blast
qed

section \<open>The extracted title is never empty\<close>

lemma title_matchers_empty_html: "first_search (title_matchers st) [] = None"
proof -
  have w: "first_search wechat_title_matchers [] = None" by code_simp
  have n: "first_search notion_title_matchers [] = None" by code_simp
  have g: "first_search general_title_matchers [] = None" by code_simp
  show ?thesis by (simp add: title_matchers_def w n g)
qed

lemma raw_title_no_match: "first_search (title_matchers st) html = None \<Longrightarrow> raw_title st html = []"
  by (auto simp: title_matchers_def raw_title_def wechat_title_def notion_title_def
      general_title_def split: if_splits)

text \<open>
  C2: for every source type and every HTML string, the empty string and malformed markup
  included, the extraction step of \<open>fetch_article\<close> has a result (the model is a total
  function with no error branch, as the extractors have no raising path), the title is not
  empty, and it is the placeholder whenever no title rule matches, in particular on the
  empty string. So every article that \<open>fetch_article\<close> returns has a non-empty title.
\<close>

theorem extract_title_nonempty:
  "extract_title st html \<noteq> []
   \<and> (first_search (title_matchers st) html = None \<longrightarrow> extract_title st html = placeholder_title)
   \<and> extract_title st [] = placeholder_title
   \<and> (fetch_article_title url html = Some title \<longrightarrow> title \<noteq> [])"
proof (intro conjI impI)
  show "title \<noteq> []" if "fetch_article_title url html = Some title"
    using that
    by (auto simp: fetch_article_title_def extract_title_def Let_def placeholder_title_def
        split: if_splits)
  show "extract_title st html \<noteq> []"
    by (simp add: extract_title_def Let_def placeholder_title_def)
  show "extract_title st html = placeholder_title" if "first_search (title_matchers st) html = None"
    using raw_title_no_match [OF that] by (simp add: extract_title_def)
  show "extract_title st [] = placeholder_title"
    using raw_title_no_match [OF title_matchers_empty_html] by (simp add: extract_title_def)
qed

theorem extract_title_nonempty_witness:
  "first_search (title_matchers General) (str ''<p>no title here</p><title>'') = None
   \<and> extract_title General (str ''<p>no title here</p><title>'') = placeholder_title
   \<and> extract_title General (str ''<p>no title here</p><title>'') \<noteq> []
   \<and> fetch_article_title (str ''https://example.com/a'') (str ''<h1> T </h1>'')
       = Some (str ''T'')
   \<and> str ''T'' \<noteq> []"
proof -
  have h: "first_search (title_matchers General) (str ''<p>no title here</p><title>'') = None"
    by code_simp
  have f: "fetch_article_title (str ''https://example.com/a'') (str ''<h1> T </h1>'')
             = Some (str ''T'')"
    by code_simp
  note a = extract_title_nonempty [of General "str ''<p>no title here</p><title>''" "[]" "[]"]
  note b = extract_title_nonempty
    [of General "str ''<h1> T </h1>''" "str ''https://example.com/a''" "str ''T''"]
  from a h have 1: "extract_title General (str ''<p>no title here</p><title>'') = placeholder_title"
    and 2: "extract_title General (str ''<p>no title here</p><title>'') \<noteq> []"
    by blast+
  from b f have 3: "str ''T'' \<noteq> []" by blast
  from h 1 2 f 3 show ?thesis by blast
qed

section \<open>Image download: one entry per URL, failures isolated\<close>

lemma digits_chars: "\<forall>c \<in> set (digits n). 48 \<le> c \<and> c \<le> 57"
proof (induction n rule: digits.induct)
  case (1 n)
  show ?case
  proof (cases "n < 10")
    case True
    then show ?thesis by (subst digits.simps) simp
  next
    case False
    have "n mod 10 < 10" by simp
    then have "48 + n mod 10 \<le> 57" by linarith
    with 1 False show ?thesis by (subst digits.simps) auto
  qed
qed

lemma zpad_chars: "\<forall>c \<in> set (zpad w n). 48 \<le> c \<and> c \<le> 57"
  using digits_chars [of n] by (auto simp: zpad_def)

lemma filename_no_dot: "46 \<notin> set (timestamp t @ str ''_'' @ digits i)"
  using zpad_chars digits_chars [of i]
  by (fastforce simp: timestamp_def str_def)

lemma path_suffix_no_dot: "46 \<notin> set name \<Longrightarrow> path_suffix name = []"
  by (simp add: path_suffix_def Let_def)

lemma empty_not_image_suffix: "py_lower [] \<notin> set image_suffixes"
  by (simp add: py_lower_def image_suffixes_def str_def)

lemma ext_starts_with_dot: "startswith (get_image_extension url ct) (str ''.'')"
proof -
  have "\<forall>(k, e) \<in> set type_map. startswith e (str ''.'')"
    by (simp add: type_map_def startswith_def str_def)
  then have "map_of type_map ct = Some e \<Longrightarrow> startswith e (str ''.'')" for e
    by (auto dest: map_of_SomeD)
  then show ?thesis
    by (auto simp: get_image_extension_def startswith_def str_def split: option.splits if_splits)
qed

lemma download_image_name:
  "download_image w i url (timestamp t @ str ''_'' @ digits i) = Some name \<Longrightarrow>
     \<exists>ct data. http_get w i url = Some (ct, data)
       \<and> name = timestamp t @ str ''_'' @ digits i @ get_image_extension url ct"
  using filename_no_dot [of t i] empty_not_image_suffix
  by (auto simp: download_image_def Let_def with_suffix_def path_suffix_no_dot
      split: option.splits if_splits)

lemma download_image_failure: "http_get w i url = None \<Longrightarrow> download_image w i url f = None"
  by (simp add: download_image_def)

lemma loop_attempts: "attempts (download_loop w i urls st) = attempts st @ urls"
  by (induction urls arbitrary: i st) auto

lemma loop_other:
  "u \<notin> set urls \<Longrightarrow> url_mapping (download_loop w i urls st) u = url_mapping st u"
  by (induction urls arbitrary: i st) auto

lemma loop_dom: "dom (url_mapping (download_loop w i urls st)) = dom (url_mapping st) \<union> set urls"
  by (induction urls arbitrary: i st) auto

lemma loop_entry:
  "k < length urls \<Longrightarrow> \<forall>j. k < j \<and> j < length urls \<longrightarrow> urls ! j \<noteq> urls ! k \<Longrightarrow>
   url_mapping (download_loop w i urls st) (urls ! k) = Some (entry_value w (i + k) (urls ! k))"
proof (induction urls arbitrary: i st k)
  case Nil
  then show ?case by simp
next
  case (Cons u rest)
  show ?case
  proof (cases k)
    case 0
    have "u \<notin> set rest"
    proof
      assume "u \<in> set rest"
      then obtain j where "j < length rest" "rest ! j = u" by (auto simp: in_set_conv_nth)
      then have "0 < Suc j \<and> Suc j < length (u # rest) \<and> (u # rest) ! Suc j = (u # rest) ! 0"
        by simp
      with Cons.prems 0 show False by blast
    qed
    then show ?thesis using 0 by (simp add: loop_other)
  next
    case (Suc k')
    have a: "k' < length rest" using Cons.prems Suc by simp
    have b: "\<forall>j. k' < j \<and> j < length rest \<longrightarrow> rest ! j \<noteq> rest ! k'"
    proof (intro allI impI)
      fix j assume "k' < j \<and> j < length rest"
      then have "k < Suc j \<and> Suc j < length (u # rest)" using Suc by simp
      with Cons.prems have "(u # rest) ! Suc j \<noteq> (u # rest) ! k" by blast
      then show "rest ! j \<noteq> rest ! k'" using Suc by simp
    qed
    from Cons.IH [OF a b] show ?thesis using Suc by simp
  qed
qed

lemma download_image_outcome:
  "download_image w i url (timestamp t @ str ''_'' @ digits i) =
     (case http_get w i url of
        None \<Rightarrow> None
      | Some (ct, data) \<Rightarrow>
          if write_ok w i (timestamp t @ str ''_'' @ digits i @ get_image_extension url ct)
          then Some (timestamp t @ str ''_'' @ digits i @ get_image_extension url ct)
          else None)"
  using filename_no_dot [of t i] empty_not_image_suffix
  by (auto simp: download_image_def Let_def with_suffix_def path_suffix_no_dot
      split: option.splits)

lemma entry_value_outcome:
  "entry_value w i url =
     (case http_get w i url of
        None \<Rightarrow> url
      | Some (ct, data) \<Rightarrow>
          if write_ok w i (timestamp (now w i) @ str ''_'' @ digits i
                           @ get_image_extension url ct)
          then str ''images/'' @ timestamp (now w i) @ str ''_'' @ digits i
               @ get_image_extension url ct
          else url)"
  unfolding entry_value_def Let_def download_image_outcome
  by (auto split: option.splits)

text \<open>
  C4: for every list of URLs the download step returns a dictionary with exactly the
  input URLs as keys, and it attempts the URLs one by one in input order, whatever the
  outcomes are. The entry written at position \<open>i\<close> (from 1) for a URL is decided by the
  outcome of its own download only: when the request answers and the file is written, it is
  the local path \<open>images/<timestamp>_<i><ext>\<close>, with the extension found from the
  content type or the URL, which starts with a dot; when the request raises (a malformed
  URL, a network error, a timeout, an error status) or the write raises, it is the URL
  itself. The dictionary holds for each URL the entry of its last occurrence; in a list
  without repetitions, as \<open>_extract_image_urls\<close> returns it, that is the entry of its
  only one. The directory is created before the loop, outside the \<open>try\<close>: if that
  fails, nothing is returned.
\<close>

theorem download_images_one_entry_per_url:
  "(mkdir_ok w \<or> urls = [] \<longrightarrow>
     (\<exists>st. download_images w urls = Inr st
        \<and> attempts st = urls
        \<and> dom (url_mapping st) = set urls
        \<and> (\<forall>k. k < length urls \<and> (\<forall>j. k < j \<and> j < length urls \<longrightarrow> urls ! j \<noteq> urls ! k)
              \<longrightarrow> url_mapping st (urls ! k) = Some (entry_value w (Suc k) (urls ! k)))
        \<and> (distinct urls \<longrightarrow>
              (\<forall>k < length urls.
                 url_mapping st (urls ! k) = Some (entry_value w (Suc k) (urls ! k))))))
   \<and> (\<not> mkdir_ok w \<and> urls \<noteq> [] \<longrightarrow> download_images w urls = Inl MkdirFailed)
   \<and> (http_get w i url = None
        \<longrightarrow> download_image w i url (timestamp (now w i) @ str ''_'' @ digits i) = None)
   \<and> (download_image w i url (timestamp (now w i) @ str ''_'' @ digits i) = None
        \<longrightarrow> entry_value w i url = url)
   \<and> (download_image w i url (timestamp (now w i) @ str ''_'' @ digits i) = Some name
        \<longrightarrow> entry_value w i url = str ''images/'' @ name
            \<and> (\<exists>ct data. http_get w i url = Some (ct, data)
                  \<and> name = timestamp (now w i) @ str ''_'' @ digits i
                           @ get_image_extension url ct
                  \<and> startswith (get_image_extension url ct) (str ''.'')))
   \<and> (http_get w i url = None \<longrightarrow> entry_value w i url = url)
   \<and> (http_get w i url = Some (ct, data)
        \<and> write_ok w i (timestamp (now w i) @ str ''_'' @ digits i @ get_image_extension url ct)
        \<longrightarrow> download_image w i url (timestamp (now w i) @ str ''_'' @ digits i)
              = Some (timestamp (now w i) @ str ''_'' @ digits i @ get_image_extension url ct)
            \<and> entry_value w i url
              = str ''images/'' @ timestamp (now w i) @ str ''_'' @ digits i
                @ get_image_extension url ct)
   \<and> (http_get w i url = Some (ct, data)
        \<and> \<not> write_ok w i (timestamp (now w i) @ str ''_'' @ digits i
                            @ get_image_extension url ct)
        \<longrightarrow> download_image w i url (timestamp (now w i) @ str ''_'' @ digits i) = None
            \<and> entry_value w i url = url)"
proof (intro conjI impI)
  assume ok: "mkdir_ok w \<or> urls = []"
  let ?init = "\<lparr>url_mapping = Map.empty, attempts = []\<rparr>"
  let ?st = "download_loop w 1 urls ?init"
  have r: "download_images w urls = Inr ?st"
    using ok by (auto simp: download_images_def)
  have a: "attempts ?st = urls" by (simp add: loop_attempts)
  have d: "dom (url_mapping ?st) = set urls" by (simp add: loop_dom)
  have e: "\<forall>k. k < length urls \<and> (\<forall>j. k < j \<and> j < length urls \<longrightarrow> urls ! j \<noteq> urls ! k)
              \<longrightarrow> url_mapping ?st (urls ! k) = Some (entry_value w (Suc k) (urls ! k))"
    using loop_entry [of _ urls w 1 ?init] by simp
  have f: "distinct urls \<longrightarrow>
              (\<forall>k < length urls.
                 url_mapping ?st (urls ! k) = Some (entry_value w (Suc k) (urls ! k)))"
  proof (intro impI allI)
    fix k
    assume di: "distinct urls" and k: "k < length urls"
    have "\<forall>j. k < j \<and> j < length urls \<longrightarrow> urls ! j \<noteq> urls ! k"
      using di k by (auto simp: nth_eq_iff_index_eq)
    with e k show "url_mapping ?st (urls ! k) = Some (entry_value w (Suc k) (urls ! k))"
      by blast
  qed
  from r a d e f show "\<exists>st. download_images w urls = Inr st
        \<and> attempts st = urls
        \<and> dom (url_mapping st) = set urls
        \<and> (\<forall>k. k < length urls \<and> (\<forall>j. k < j \<and> j < length urls \<longrightarrow> urls ! j \<noteq> urls ! k)
              \<longrightarrow> url_mapping st (urls ! k) = Some (entry_value w (Suc k) (urls ! k)))
        \<and> (distinct urls \<longrightarrow>
              (\<forall>k < length urls.
                 url_mapping st (urls ! k) = Some (entry_value w (Suc k) (urls ! k))))"
    by blast
next
  assume "\<not> mkdir_ok w \<and> urls \<noteq> []"
  then show "download_images w urls = Inl MkdirFailed"
    by (simp add: download_images_def)
next
  assume "http_get w i url = None"
  then show "download_image w i url (timestamp (now w i) @ str ''_'' @ digits i) = None"
    by (rule download_image_failure)
next
  assume "download_image w i url (timestamp (now w i) @ str ''_'' @ digits i) = None"
  then show "entry_value w i url = url"
    by (simp add: entry_value_def)
next
  assume s: "download_image w i url (timestamp (now w i) @ str ''_'' @ digits i) = Some name"
  then show "entry_value w i url = str ''images/'' @ name"
    by (simp add: entry_value_def)
  from download_image_name [OF s] ext_starts_with_dot
  show "\<exists>ct data. http_get w i url = Some (ct, data)
          \<and> name = timestamp (now w i) @ str ''_'' @ digits i @ get_image_extension url ct
          \<and> startswith (get_image_extension url ct) (str ''.'')"
    by blast
next
  assume "http_get w i url = None"
  then show "entry_value w i url = url"
    by (simp add: entry_value_outcome)
next
  assume a: "http_get w i url = Some (ct, data)
        \<and> write_ok w i (timestamp (now w i) @ str ''_'' @ digits i @ get_image_extension url ct)"
  then show "download_image w i url (timestamp (now w i) @ str ''_'' @ digits i)
              = Some (timestamp (now w i) @ str ''_'' @ digits i @ get_image_extension url ct)"
    by (simp add: download_image_outcome)
  from a show "entry_value w i url
              = str ''images/'' @ timestamp (now w i) @ str ''_'' @ digits i
                @ get_image_extension url ct"
    by (simp add: entry_value_outcome)
next
  assume a: "http_get w i url = Some (ct, data)
        \<and> \<not> write_ok w i (timestamp (now w i) @ str ''_'' @ digits i
                            @ get_image_extension url ct)"
  then show "download_image w i url (timestamp (now w i) @ str ''_'' @ digits i) = None"
    by (simp add: download_image_outcome)
  from a show "entry_value w i url = url"
    by (simp add: entry_value_outcome)
qed

theorem download_images_one_entry_per_url_witness:
  "mkdir_ok example_world
   \<and> http_get example_world 2 (str ''https://h/b.png'') = None
   \<and> download_image example_world 2 (str ''https://h/b.png'')
         (timestamp (now example_world 2) @ str ''_'' @ digits 2) = None
   \<and> download_image example_world 1 (str ''https://h/a.png'')
         (timestamp (now example_world 1) @ str ''_'' @ digits 1)
       = Some (str ''20240102_030405_000678_1.png'')
   \<and> entry_value example_world 1 (str ''https://h/a.png'')
       = str ''images/'' @ str ''20240102_030405_000678_1.png''
   \<and> (\<exists>st. download_images example_world [str ''https://h/a.png'', str ''https://h/b.png'']
              = Inr st
         \<and> attempts st = [str ''https://h/a.png'', str ''https://h/b.png'']
         \<and> url_mapping st (str ''https://h/a.png'')
             = Some (str ''images/20240102_030405_000678_1.png'')
         \<and> url_mapping st (str ''https://h/b.png'') = Some (str ''https://h/b.png''))
   \<and> download_images (example_world\<lparr>mkdir_ok := False\<rparr>) [str ''https://h/a.png'']
       = Inl MkdirFailed
   \<and> http_get example_world 1 (str ''https://h/a.png'')
       = Some (str ''image/png'', [137, 80, 78, 71])
   \<and> entry_value example_world 1 (str ''https://h/a.png'')
       = str ''images/20240102_030405_000678_1.png''
   \<and> entry_value (example_world\<lparr>write_ok := \<lambda>i name. False\<rparr>) 1 (str ''https://h/a.png'')
       = str ''https://h/a.png''
   \<and> entry_value example_world 2 (str ''https://h/b.png'') = str ''https://h/b.png''"
proof -
  let ?a = "str ''https://h/a.png''"
  let ?b = "str ''https://h/b.png''"
  let ?U = "[?a, ?b]"
  let ?w' = "example_world\<lparr>mkdir_ok := False\<rparr>"
  let ?wf = "example_world\<lparr>write_ok := \<lambda>i name. False\<rparr>"
  let ?ct = "str ''image/png''"
  let ?data = "[137, 80, 78, 71] :: nat list"
  have m: "mkdir_ok example_world" by code_simp
  have g: "http_get example_world 2 ?b = None" by code_simp
  have ne: "?b \<noteq> ?a" by code_simp
  have s: "download_image example_world 1 ?a
             (timestamp (now example_world 1) @ str ''_'' @ digits 1)
           = Some (str ''20240102_030405_000678_1.png'')"
    by code_simp
  have va: "entry_value example_world (Suc 0) ?a = str ''images/20240102_030405_000678_1.png''"
    by code_simp
  have nm: "\<not> mkdir_ok ?w' \<and> [?a] \<noteq> []" by code_simp
  have ga: "http_get example_world 1 ?a = Some (?ct, ?data)" by code_simp
  have wa: "write_ok example_world 1
              (timestamp (now example_world 1) @ str ''_'' @ digits 1
               @ get_image_extension ?a ?ct)"
    by code_simp
  have na: "str ''images/'' @ timestamp (now example_world 1) @ str ''_'' @ digits 1
              @ get_image_extension ?a ?ct = str ''images/20240102_030405_000678_1.png''"
    by code_simp
  have gf: "http_get ?wf 1 ?a = Some (?ct, ?data)" by code_simp
  have wf: "\<not> write_ok ?wf 1
              (timestamp (now ?wf 1) @ str ''_'' @ digits 1 @ get_image_extension ?a ?ct)"
    by code_simp
  note t = download_images_one_entry_per_url [of example_world ?U 2 ?b "[]" "[]" "[]"]
  note t1 = download_images_one_entry_per_url
    [of example_world ?U 1 ?a "str ''20240102_030405_000678_1.png''" ?ct ?data]
  note t2 = download_images_one_entry_per_url [of ?w' "[?a]" 1 ?a "[]" "[]" "[]"]
  note t3 = download_images_one_entry_per_url [of ?wf "[?a]" 1 ?a "[]" ?ct ?data]
  from t g have dn: "download_image example_world 2 ?b
                       (timestamp (now example_world 2) @ str ''_'' @ digits 2) = None"
    by blast
  from t g have vb2: "entry_value example_world 2 ?b = ?b" by blast
  then have vb: "entry_value example_world (Suc 1) ?b = ?b" by (simp add: numeral_2_eq_2)
  from t1 s have v1: "entry_value example_world 1 ?a
                        = str ''images/'' @ str ''20240102_030405_000678_1.png''"
    by blast
  from t1 ga wa have "entry_value example_world 1 ?a
              = str ''images/'' @ timestamp (now example_world 1) @ str ''_'' @ digits 1
                @ get_image_extension ?a ?ct"
    by blast
  with na have v2: "entry_value example_world 1 ?a = str ''images/20240102_030405_000678_1.png''"
    by simp
  from t3 gf wf have v3: "entry_value ?wf 1 ?a = ?a" by blast
  from t2 nm have mf: "download_images ?w' [?a] = Inl MkdirFailed" by blast
  have di: "distinct ?U" using ne by simp
  from t m obtain st where st: "download_images example_world ?U = Inr st"
      "attempts st = ?U"
      "distinct ?U \<longrightarrow> (\<forall>k < length ?U.
          url_mapping st (?U ! k) = Some (entry_value example_world (Suc k) (?U ! k)))"
    by blast
  from st(3) di have al: "\<forall>k < length ?U.
          url_mapping st (?U ! k) = Some (entry_value example_world (Suc k) (?U ! k))"
    by blast
  have "0 < length ?U" by simp
  with al have "url_mapping st (?U ! 0) = Some (entry_value example_world (Suc 0) (?U ! 0))"
    by blast
  with va have ea: "url_mapping st ?a = Some (str ''images/20240102_030405_000678_1.png'')"
    by simp
  have "1 < length ?U" by simp
  with al have "url_mapping st (?U ! 1) = Some (entry_value example_world (Suc 1) (?U ! 1))"
    by blast
  with vb have eb: "url_mapping st ?b = Some ?b" by simp
  from st(1) st(2) ea eb have ex: "\<exists>st. download_images example_world ?U = Inr st
         \<and> attempts st = ?U
         \<and> url_mapping st ?a = Some (str ''images/20240102_030405_000678_1.png'')
         \<and> url_mapping st ?b = Some ?b"
    by blast
  from m g dn s v1 ex mf ga v2 v3 vb2 show ?thesis by blast
qed

section \<open>The Markdown transform on concrete fragments\<close>

text \<open>
  C5: an image tag becomes \<open>![alt](src)\<close>, with \<open>data-src\<close> preferred to
  \<open>src\<close>. The code takes the first of the two attributes in the tag, not
  \<open>data-src\<close> whenever it is present: on \<open><img src="a.png" data-src="b.png">\<close>
  the result names \<open>a.png\<close>, where the claim asks for \<open>b.png\<close>. With the
  attributes in the other order the code does what the claim says, the default
  alternative text included, and it expands a protocol-relative URL.
\<close>

theorem html_to_markdown_img_src_before_data_src:
  "html_to_markdown (str ''<img src=\"a.png\" data-src=\"b.png\">'')
     = str ''!['' @ default_alt @ str ''](a.png)''
   \<and> html_to_markdown (str ''<img data-src=\"b.png\" src=\"a.png\">'')
     = str ''!['' @ default_alt @ str ''](b.png)''
   \<and> html_to_markdown (str ''<img alt=\"x\" src=\"//cdn.example.com/a.png\">'')
     = str ''![x](https://cdn.example.com/a.png)''"
  by code_simp

text \<open>
  C6: the items of an ordered list are numbered from 1. \<open>replace_ol\<close> does number the
  items it finds, but in \<open>_html_to_markdown\<close> the rewrite of every \<open><li>\<close> into
  \<open>- item\<close> runs before it, on the whole text: when \<open>replace_ol\<close> runs, the list
  has no \<open><li>\<close> left, so it finds no item and replaces the whole list by one newline.
  The list \<open><ol><li>a</li><li>b</li></ol>\<close> gives the empty text, not
  \<open>1. a\<close>, \<open>2. b\<close>.
\<close>

theorem html_to_markdown_ordered_list_lost:
  "html_to_markdown (str ''<ol><li>a</li><li>b</li></ol>'') = []
   \<and> html_to_markdown (str ''x<ol><li>5. a</li><li>9. b</li><li>2. c</li></ol>y'')
     = str ''x'' @ nl @ str ''y''
   \<and> replace_ol [(1, str ''<li>a</li><li>b</li>'')]
     = nl @ str ''1. a'' @ nl @ str ''2. b'' @ nl
   \<and> fold (\<lambda>f h. f h) (take 12 markdown_rewrites) (str ''<ol><li>a</li><li>b</li></ol>'')
     = str ''<ol>- a'' @ nl @ str ''- b'' @ nl @ str ''</ol>''"
  by code_simp

text \<open>
  C7: after the final cleanup the text has no run of three or more newlines. The cleanup
  collapses the runs of newlines first and right-trims the lines afterwards, so a line of
  blanks between newlines becomes empty after the runs were collapsed: the text
  \<open>a\n \n\nb\<close> comes out as \<open>a\n\n\nb\<close>, and so does the fragment
  \<open><p>a</p> <p>b</p>\<close>.
\<close>

theorem final_cleanup_leaves_three_newlines:
  "final_cleanup (str ''a'' @ nl @ str '' '' @ nl @ nl @ str ''b'')
     = str ''a'' @ nl @ nl @ nl @ str ''b''
   \<and> html_to_markdown (str ''<p>a</p> <p>b</p>'') = str ''a'' @ nl @ nl @ nl @ str ''b''
   \<and> py_in (nl @ nl @ nl) (html_to_markdown (str ''<p>a</p> <p>b</p>''))"
  by code_simp

section \<open>The fallback archive\<close>

lemma collect_images_paths:
  "collect_images fs i refs = Inr images \<Longrightarrow>
     \<forall>img \<in> set images. \<exists>r. epub_path img = str ''images/img_'' @ r"
proof (induction refs arbitrary: i images)
  case Nil
  then show ?case by simp
next
  case (Cons ref refs)
  then show ?case
    by (fastforce simp: image_record_def split: option.splits if_splits sum.splits)
qed

lemma image_entries_other_names:
  assumes "\<forall>img \<in> set images. \<exists>r. epub_path img = str ''images/img_'' @ r"
    and "\<not> (\<exists>r. n = str ''OEBPS/images/img_'' @ r)"
  shows "filter (\<lambda>e. entry_name e = n) (map image_zip_entry images) = []"
proof -
  have "entry_name (image_zip_entry img) \<noteq> n" if "img \<in> set images" for img
  proof -
    from assms(1) that obtain r where "epub_path img = str ''images/img_'' @ r" by blast
    then have "entry_name (image_zip_entry img) = str ''OEBPS/images/img_'' @ r"
      by (simp add: image_zip_entry_def str_def)
    with assms(2) show ?thesis by metis
  qed
  then show ?thesis by (auto simp: filter_empty_conv)
qed

lemma document_names_not_images:
  "\<not> (\<exists>r. str ''OEBPS/content.opf'' = str ''OEBPS/images/img_'' @ r)"
  "\<not> (\<exists>r. str ''OEBPS/nav.xhtml'' = str ''OEBPS/images/img_'' @ r)"
  "\<not> (\<exists>r. str ''OEBPS/toc.ncx'' = str ''OEBPS/images/img_'' @ r)"
  by (simp_all add: str_def)

lemma write_archive_count:
  assumes "\<forall>img \<in> set images. \<exists>r. epub_path img = str ''images/img_'' @ r"
  shows "length (filter (\<lambda>e. entry_name e = str ''OEBPS/content.opf'')
                   (write_archive docs images)) = 1"
    and "length (filter (\<lambda>e. entry_name e = str ''OEBPS/nav.xhtml'')
                   (write_archive docs images)) = 1"
    and "length (filter (\<lambda>e. entry_name e = str ''OEBPS/toc.ncx'')
                   (write_archive docs images)) = 1"
  using image_entries_other_names [OF assms document_names_not_images(1)]
        image_entries_other_names [OF assms document_names_not_images(2)]
        image_entries_other_names [OF assms document_names_not_images(3)]
  by (simp_all add: write_archive_def str_def)

lemma fallback_tier_Inr:
  "fallback_tier fs docs has md = Inr entries \<Longrightarrow>
     \<exists>images. (if has \<and> re_findall1 pat_md_image md \<noteq> []
                then collect_images fs 0 (re_findall1 pat_md_image md) else Inr []) = Inr images
       \<and> entries = write_archive docs images"
  by (auto simp: fallback_tier_def Let_def split: sum.splits option.splits)

text \<open>
  C3: when the fallback tier succeeds, the first entry of its archive is named
  \<open>mimetype\<close>, is stored without compression and has the content
  \<open>application/epub+zip\<close>; every other entry is compressed; exactly one entry is the
  package document \<open>OEBPS/content.opf\<close>, exactly one the navigation document
  \<open>OEBPS/nav.xhtml\<close>, exactly one the legacy table of contents \<open>OEBPS/toc.ncx\<close>; and
  after the six fixed entries there is one entry for each image that was resolved, in the
  order of the references.
\<close>

theorem fallback_archive_layout:
  "fallback_tier fs docs has md = Inr entries \<longrightarrow>
     (\<exists>images rest.
        (if has \<and> re_findall1 pat_md_image md \<noteq> []
         then collect_images fs 0 (re_findall1 pat_md_image md) else Inr []) = Inr images
        \<and> entries = \<lparr>entry_name = str ''mimetype'', entry_data = str ''application/epub+zip'',
                      entry_compression = ZIP_STORED\<rparr> # rest
        \<and> (\<forall>e \<in> set rest. entry_compression e = ZIP_DEFLATED)
        \<and> length (filter (\<lambda>e. entry_name e = str ''OEBPS/content.opf'') entries) = 1
        \<and> length (filter (\<lambda>e. entry_name e = str ''OEBPS/nav.xhtml'') entries) = 1
        \<and> length (filter (\<lambda>e. entry_name e = str ''OEBPS/toc.ncx'') entries) = 1
        \<and> drop 6 entries = map image_zip_entry images
        \<and> length entries = 6 + length images)"
proof
  assume "fallback_tier fs docs has md = Inr entries"
  from fallback_tier_Inr [OF this] obtain images where
    c: "(if has \<and> re_findall1 pat_md_image md \<noteq> []
         then collect_images fs 0 (re_findall1 pat_md_image md) else Inr []) = Inr images"
    and e: "entries = write_archive docs images"
    by blast
  have p: "\<forall>img \<in> set images. \<exists>r. epub_path img = str ''images/img_'' @ r"
    using c collect_images_paths by (auto split: if_splits)
  let ?rest = "tl (write_archive docs images)"
  have h: "entries = \<lparr>entry_name = str ''mimetype'', entry_data = str ''application/epub+zip'',
                      entry_compression = ZIP_STORED\<rparr> # ?rest"
    by (simp add: e write_archive_def)
  have d: "\<forall>e \<in> set ?rest. entry_compression e = ZIP_DEFLATED"
    by (auto simp: write_archive_def image_zip_entry_def)
  have n: "drop 6 entries = map image_zip_entry images" "length entries = 6 + length images"
    by (simp_all add: e write_archive_def)
  from c h d n write_archive_count [OF p, of docs] show
    "\<exists>images rest.
        (if has \<and> re_findall1 pat_md_image md \<noteq> []
         then collect_images fs 0 (re_findall1 pat_md_image md) else Inr []) = Inr images
        \<and> entries = \<lparr>entry_name = str ''mimetype'', entry_data = str ''application/epub+zip'',
                      entry_compression = ZIP_STORED\<rparr> # rest
        \<and> (\<forall>e \<in> set rest. entry_compression e = ZIP_DEFLATED)
        \<and> length (filter (\<lambda>e. entry_name e = str ''OEBPS/content.opf'') entries) = 1
        \<and> length (filter (\<lambda>e. entry_name e = str ''OEBPS/nav.xhtml'') entries) = 1
        \<and> length (filter (\<lambda>e. entry_name e = str ''OEBPS/toc.ncx'') entries) = 1
        \<and> drop 6 entries = map image_zip_entry images
        \<and> length entries = 6 + length images"
    unfolding e by blast
qed

theorem fallback_archive_layout_witness:
  "fallback_tier example_fs example_docs True
     (str ''![x](images/a.png) ![y](b.gif) ![z](http://h/c.png)'')
     = Inr (write_archive example_docs
         [\<lparr>original_ref = str ''images/a.png'', epub_path = str ''images/img_0.png'',
           image_data = [137, 80], media_type = str ''image/png''\<rparr>,
          \<lparr>original_ref = str ''b.gif'', epub_path = str ''images/img_1.gif'',
           image_data = [71, 73, 70], media_type = str ''application/octet-stream''\<rparr>])
   \<and> length (filter (\<lambda>e. entry_name e = str ''OEBPS/content.opf'')
        (write_archive example_docs
         [\<lparr>original_ref = str ''images/a.png'', epub_path = str ''images/img_0.png'',
           image_data = [137, 80], media_type = str ''image/png''\<rparr>,
          \<lparr>original_ref = str ''b.gif'', epub_path = str ''images/img_1.gif'',
           image_data = [71, 73, 70], media_type = str ''application/octet-stream''\<rparr>])) = 1
   \<and> length (write_archive example_docs
         [\<lparr>original_ref = str ''images/a.png'', epub_path = str ''images/img_0.png'',
           image_data = [137, 80], media_type = str ''image/png''\<rparr>,
          \<lparr>original_ref = str ''b.gif'', epub_path = str ''images/img_1.gif'',
           image_data = [71, 73, 70], media_type = str ''application/octet-stream''\<rparr>]) = 8"
proof -
  let ?md = "str ''![x](images/a.png) ![y](b.gif) ![z](http://h/c.png)''"
  let ?E = "write_archive example_docs
         [\<lparr>original_ref = str ''images/a.png'', epub_path = str ''images/img_0.png'',
           image_data = [137, 80], media_type = str ''image/png''\<rparr>,
          \<lparr>original_ref = str ''b.gif'', epub_path = str ''images/img_1.gif'',
           image_data = [71, 73, 70], media_type = str ''application/octet-stream''\<rparr>]"
  have h: "fallback_tier example_fs example_docs True ?md = Inr ?E"
    by code_simp
  have l: "length ?E = 8"
    by (simp add: write_archive_def)
  from fallback_archive_layout [of example_fs example_docs True ?md ?E] h
  have "length (filter (\<lambda>e. entry_name e = str ''OEBPS/content.opf'') ?E) = 1"
    by blast
  with h l show ?thesis by blast
qed

section \<open>The two tiers of the EPUB conversion\<close>

lemma convert_with_pandoc_success_iff:
  "fst (convert_with_pandoc pl w out) \<longleftrightarrow>
     pandoc_path w \<noteq> None \<and> prepare_error w = None
     \<and> (\<exists>r1. stage1 w = Inr r1 \<and> returncode r1 = 0)
     \<and> (\<exists>r2. stage2 w = Inr r2 \<and> returncode r2 = 0)
     \<and> epub_exists w \<and> epub_size w \<noteq> 0 \<and> copy_error w = None"
  by (auto simp: convert_with_pandoc_def split: option.splits sum.splits)

lemma convert_with_pandoc_success_path:
  "fst (convert_with_pandoc pl w out) \<Longrightarrow> convert_with_pandoc pl w out = (True, path_absolute pl out)"
  by (auto simp: convert_with_pandoc_def split: option.splits sum.splits if_splits)

lemma convert_to_epub_delegate:
  "fst (convert_with_pandoc pl w out) \<Longrightarrow>
     convert_to_epub pl w fs docs has md out
       = \<lparr>returned = (True, path_absolute pl out), archive = None, fallback_ran = False\<rparr>"
proof -
  assume s: "fst (convert_with_pandoc pl w out)"
  then have "pandoc_path w \<noteq> None" by (simp add: convert_with_pandoc_success_iff)
  with convert_with_pandoc_success_path [OF s] show ?thesis
    by (simp add: convert_to_epub_def)
qed

lemma convert_to_epub_fallback:
  "\<not> fst (convert_with_pandoc pl w out) \<Longrightarrow>
     convert_to_epub pl w fs docs has md out = manual_generation pl fs docs has md out"
  by (cases "convert_with_pandoc pl w out") (simp add: convert_to_epub_def)

text \<open>
  C9, as stated, fails for the first conversion stage: only its exit status is examined,
  so a missing or empty output of that stage, which the claim counts as a failure of the
  delegate tier by itself, is not seen. When the first run exits with 0 and leaves a
  missing or empty \<open>content.html\<close>, and the second run exits with 0 and leaves a
  non-empty archive, the delegate tier counts as successful, its path is returned and the
  fallback tier does not run.
\<close>

theorem convert_to_epub_stage1_output_counterexample:
  "\<not> stage1_output_ok example_pandoc
   \<and> returned (convert_to_epub example_pathlib example_pandoc example_fs example_docs True []
                 (str ''a.epub''))
       = (True, str ''/home/user/a.epub'')
   \<and> \<not> fallback_ran (convert_to_epub example_pathlib example_pandoc example_fs example_docs
                        True [] (str ''a.epub''))"
  by code_simp

text \<open>
  C9, amended: the delegate tier succeeds exactly when the tool is found, nothing raises,
  both runs exit with 0 and the second run leaves a non-empty archive (the output of the
  first run is not examined). If it succeeds, the conversion succeeds with the absolute
  output path and the fallback tier does not run. In every other case the fallback tier
  runs and its result is the result of the conversion, the output path on success: so the
  conversion succeeds whenever either tier succeeds, and a failure is returned only when
  the fallback tier has failed too, with the fallback tier's error detail.
\<close>

theorem convert_to_epub_two_tiers:
  "(fst (convert_with_pandoc pl w out) \<longleftrightarrow>
      pandoc_path w \<noteq> None \<and> prepare_error w = None
      \<and> (\<exists>r1. stage1 w = Inr r1 \<and> returncode r1 = 0)
      \<and> (\<exists>r2. stage2 w = Inr r2 \<and> returncode r2 = 0)
      \<and> epub_exists w \<and> epub_size w \<noteq> 0 \<and> copy_error w = None)
   \<and> (fst (convert_with_pandoc pl w out) \<longrightarrow>
        convert_to_epub pl w fs docs has md out
          = \<lparr>returned = (True, path_absolute pl out), archive = None, fallback_ran = False\<rparr>)
   \<and> (\<not> fst (convert_with_pandoc pl w out) \<longrightarrow>
        fallback_ran (convert_to_epub pl w fs docs has md out)
        \<and> (case fallback_tier fs docs has md of
              Inr entries \<Rightarrow>
                returned (convert_to_epub pl w fs docs has md out) = (True, path_str pl out)
                \<and> archive (convert_to_epub pl w fs docs has md out) = Some entries
            | Inl e \<Rightarrow> returned (convert_to_epub pl w fs docs has md out) = (False, e)))
   \<and> (\<not> fst (returned (convert_to_epub pl w fs docs has md out)) \<longrightarrow>
        fallback_ran (convert_to_epub pl w fs docs has md out)
        \<and> \<not> fst (convert_with_pandoc pl w out)
        \<and> fallback_tier fs docs has md
            = Inl (snd (returned (convert_to_epub pl w fs docs has md out))))
   \<and> (fst (convert_with_pandoc pl w out) \<or> (\<exists>entries. fallback_tier fs docs has md = Inr entries)
        \<longrightarrow> fst (returned (convert_to_epub pl w fs docs has md out)))"
proof (intro conjI impI)
  show "fst (convert_with_pandoc pl w out) \<longleftrightarrow>
      pandoc_path w \<noteq> None \<and> prepare_error w = None
      \<and> (\<exists>r1. stage1 w = Inr r1 \<and> returncode r1 = 0)
      \<and> (\<exists>r2. stage2 w = Inr r2 \<and> returncode r2 = 0)
      \<and> epub_exists w \<and> epub_size w \<noteq> 0 \<and> copy_error w = None"
    by (rule convert_with_pandoc_success_iff)
next
  assume "fst (convert_with_pandoc pl w out)"
  then show "convert_to_epub pl w fs docs has md out
          = \<lparr>returned = (True, path_absolute pl out), archive = None, fallback_ran = False\<rparr>"
    by (rule convert_to_epub_delegate)
next
  assume f: "\<not> fst (convert_with_pandoc pl w out)"
  show "fallback_ran (convert_to_epub pl w fs docs has md out)"
    by (simp add: convert_to_epub_fallback [OF f] manual_generation_def split: sum.splits)
  show "case fallback_tier fs docs has md of
          Inr entries \<Rightarrow>
            returned (convert_to_epub pl w fs docs has md out) = (True, path_str pl out)
            \<and> archive (convert_to_epub pl w fs docs has md out) = Some entries
        | Inl e \<Rightarrow> returned (convert_to_epub pl w fs docs has md out) = (False, e)"
    by (simp add: convert_to_epub_fallback [OF f] manual_generation_def split: sum.splits)
next
  assume r: "\<not> fst (returned (convert_to_epub pl w fs docs has md out))"
  have f: "\<not> fst (convert_with_pandoc pl w out)"
    using r convert_to_epub_delegate [of pl w out fs docs has md] by auto
  show "\<not> fst (convert_with_pandoc pl w out)" by (rule f)
  show "fallback_ran (convert_to_epub pl w fs docs has md out)"
    by (simp add: convert_to_epub_fallback [OF f] manual_generation_def split: sum.splits)
  show "fallback_tier fs docs has md
          = Inl (snd (returned (convert_to_epub pl w fs docs has md out)))"
    using r by (simp add: convert_to_epub_fallback [OF f] manual_generation_def
        split: sum.splits)
next
  assume "fst (convert_with_pandoc pl w out) \<or> (\<exists>entries. fallback_tier fs docs has md = Inr entries)"
  then show "fst (returned (convert_to_epub pl w fs docs has md out))"
  proof
    assume "fst (convert_with_pandoc pl w out)"
    then show ?thesis by (simp add: convert_to_epub_delegate)
  next
    assume e: "\<exists>entries. fallback_tier fs docs has md = Inr entries"
    show ?thesis
    proof (cases "fst (convert_with_pandoc pl w out)")
      case True
      then show ?thesis by (simp add: convert_to_epub_delegate)
    next
      case False
      with e show ?thesis
        by (auto simp: convert_to_epub_fallback manual_generation_def)
    qed
  qed
qed

theorem convert_to_epub_two_tiers_witness:
  "\<not> fst (convert_with_pandoc example_pathlib
            (example_pandoc\<lparr>stage2 := Inr \<lparr>returncode = 1, stderr = str ''boom''\<rparr>\<rparr>)
            (str ''a.epub''))
   \<and> fallback_tier (example_fs\<lparr>zip_error := Some (str ''disk full'')\<rparr>) example_docs True []
       = Inl (str ''disk full'')
   \<and> fallback_ran (convert_to_epub example_pathlib
        (example_pandoc\<lparr>stage2 := Inr \<lparr>returncode = 1, stderr = str ''boom''\<rparr>\<rparr>)
        (example_fs\<lparr>zip_error := Some (str ''disk full'')\<rparr>) example_docs True []
        (str ''a.epub''))
   \<and> returned (convert_to_epub example_pathlib
        (example_pandoc\<lparr>stage2 := Inr \<lparr>returncode = 1, stderr = str ''boom''\<rparr>\<rparr>)
        (example_fs\<lparr>zip_error := Some (str ''disk full'')\<rparr>) example_docs True []
        (str ''a.epub'')) = (False, str ''disk full'')
   \<and> fst (returned (convert_to_epub example_pathlib
        (example_pandoc\<lparr>stage2 := Inr \<lparr>returncode = 1, stderr = str ''boom''\<rparr>\<rparr>)
        example_fs example_docs True [] (str ''a.epub'')))
   \<and> returned (convert_to_epub example_pathlib
        (example_pandoc\<lparr>stage2 := Inr \<lparr>returncode = 1, stderr = str ''boom''\<rparr>\<rparr>)
        example_fs example_docs True [] (str ''a.epub'')) = (True, str ''a.epub'')
   \<and> fst (convert_with_pandoc example_pathlib example_pandoc (str ''a.epub''))
   \<and> convert_to_epub example_pathlib example_pandoc example_fs example_docs True []
        (str ''a.epub'')
       = \<lparr>returned = (True, str ''/home/user/a.epub''), archive = None, fallback_ran = False\<rparr>"
proof -
  let ?pl = "example_pathlib"
  let ?w = "example_pandoc\<lparr>stage2 := Inr \<lparr>returncode = 1, stderr = str ''boom''\<rparr>\<rparr>"
  let ?fs = "example_fs\<lparr>zip_error := Some (str ''disk full'')\<rparr>"
  let ?out = "str ''a.epub''"
  have d: "\<not> fst (convert_with_pandoc ?pl ?w ?out)"
    by code_simp
  have f: "fallback_tier ?fs example_docs True [] = Inl (str ''disk full'')"
    by code_simp
  have g': "fallback_tier example_fs example_docs True [] = Inr (write_archive example_docs [])"
    by code_simp
  then have g: "\<exists>entries. fallback_tier example_fs example_docs True [] = Inr entries"
    by blast
  have s: "fst (convert_with_pandoc ?pl example_pandoc ?out)"
    by code_simp
  have pa: "path_absolute ?pl ?out = str ''/home/user/a.epub''"
    by code_simp
  have ps: "path_str ?pl ?out = str ''a.epub''"
    by code_simp
  note t1 = convert_to_epub_two_tiers
    [where pl = ?pl and w = ?w and out = ?out and fs = ?fs and docs = example_docs
       and has = True and md = "[]"]
  note t2 = convert_to_epub_two_tiers
    [where pl = ?pl and w = ?w and out = ?out and fs = example_fs and docs = example_docs
       and has = True and md = "[]"]
  note t3 = convert_to_epub_two_tiers
    [where pl = ?pl and w = example_pandoc and out = ?out and fs = example_fs
       and docs = example_docs and has = True and md = "[]"]
  from t1 d
  have r: "fallback_ran (convert_to_epub ?pl ?w ?fs example_docs True [] ?out)"
    and "case fallback_tier ?fs example_docs True [] of
           Inr entries \<Rightarrow>
             returned (convert_to_epub ?pl ?w ?fs example_docs True [] ?out)
               = (True, path_str ?pl ?out)
             \<and> archive (convert_to_epub ?pl ?w ?fs example_docs True [] ?out) = Some entries
         | Inl e \<Rightarrow> returned (convert_to_epub ?pl ?w ?fs example_docs True [] ?out) = (False, e)"
    by blast+
  with f have e: "returned (convert_to_epub ?pl ?w ?fs example_docs True [] ?out)
                    = (False, str ''disk full'')"
    by simp
  from t2 g have ok: "fst (returned (convert_to_epub ?pl ?w example_fs example_docs True [] ?out))"
    by blast
  from t2 d
  have "case fallback_tier example_fs example_docs True [] of
           Inr entries \<Rightarrow>
             returned (convert_to_epub ?pl ?w example_fs example_docs True [] ?out)
               = (True, path_str ?pl ?out)
             \<and> archive (convert_to_epub ?pl ?w example_fs example_docs True [] ?out)
               = Some entries
         | Inl e \<Rightarrow> returned (convert_to_epub ?pl ?w example_fs example_docs True [] ?out)
               = (False, e)"
    by blast
  with g' ps have fo: "returned (convert_to_epub ?pl ?w example_fs example_docs True [] ?out)
                         = (True, str ''a.epub'')"
    by simp
  from t3 s have "convert_to_epub ?pl example_pandoc example_fs example_docs True [] ?out
       = \<lparr>returned = (True, path_absolute ?pl ?out), archive = None, fallback_ran = False\<rparr>"
    by blast
  with pa have dl: "convert_to_epub ?pl example_pandoc example_fs example_docs True [] ?out
       = \<lparr>returned = (True, str ''/home/user/a.epub''), archive = None, fallback_ran = False\<rparr>"
    by simp
  from d f r e ok fo s dl show ?thesis by blast
qed

section \<open>Image URL discovery: first-seen order, no duplicates\<close>

lemma remdups_append_same_set:
  "set l = set l' \<Longrightarrow> remdups l = remdups l' \<Longrightarrow> remdups (ys @ l) = remdups (ys @ l')"
  by (induction ys) auto

lemma remdups_drop_seen: "x \<in> set zs \<Longrightarrow> remdups (ys @ x # zs) = remdups (ys @ zs)"
  by (rule remdups_append_same_set) auto

lemma fold_first_seen:
  "distinct acc \<Longrightarrow>
   fold (\<lambda>x urls. if x \<notin> set urls then urls @ [x] else urls) xs acc = first_seen (acc @ xs)"
proof (induction xs arbitrary: acc)
  case Nil
  then show ?case by (simp add: first_seen_def distinct_remdups_id)
next
  case (Cons x xs)
  show ?case
  proof (cases "x \<in> set acc")
    case True
    have "first_seen (acc @ x # xs) = first_seen (acc @ xs)"
      using True by (simp add: first_seen_def remdups_drop_seen)
    with Cons True show ?thesis by simp
  next
    case False
    with Cons.prems have "distinct (acc @ [x])" by simp
    from Cons.IH [OF this] False show ?thesis by simp
  qed
qed

lemma fold_option_filter:
  "fold (\<lambda>c urls. case f c of None \<Rightarrow> urls
                    | Some u \<Rightarrow> if u \<notin> set urls then urls @ [u] else urls) cs acc
   = fold (\<lambda>x urls. if x \<notin> set urls then urls @ [x] else urls) (List.map_filter f cs) acc"
  by (induction cs arbitrary: acc) (auto simp: List.map_filter_simps split: option.splits)

lemma extract_image_urls_first_seen:
  "extract_image_urls lib html base
     = first_seen (List.map_filter (normalize_image_url lib base) (image_srcs html))"
  unfolding extract_image_urls_def fold_option_filter
  using fold_first_seen [of "[]"] by simp

lemma normalize_cases:
  "normalize_image_url lib base c = Some u \<Longrightarrow>
     \<not> startswith c (str ''data:'')
     \<and> (startswith u (str ''http'')
        \<or> (startswith (decode_url_entities c) (str ''/'')
            \<and> (\<exists>b. base = Some b \<and> b \<noteq> []
                 \<and> (u = urljoin lib b (decode_url_entities c)
                    \<or> u = urlparse_scheme lib b @ str ''://'' @ urlparse_netloc lib b
                           @ decode_url_entities c))))"
  by (auto simp: normalize_image_url_def Let_def startswith_def str_def
      split: if_splits option.splits)

lemma slash_prefix: "startswith s (str ''//'') \<Longrightarrow> startswith s (str ''/'')"
  by (auto simp: startswith_iff str_def)

text \<open>
  C8, as stated, fails: the results are not always absolute URLs. A \<open>src\<close> that is
  neither protocol-relative nor root-relative is kept as it is when it begins with the
  four letters \<open>http\<close>, so the relative reference \<open>httpfoo.png\<close> is returned.
\<close>

theorem extract_image_urls_not_absolute_counterexample:
  "extract_image_urls plain_urllib (str ''<img src=\"httpfoo.png\">'')
     (Some (str ''https://site.example.com/x'')) = [str ''httpfoo.png'']
   \<and> \<not> is_absolute_url (str ''httpfoo.png'')"
  by code_simp

text \<open>
  C8, amended: image URL discovery returns, in first-seen order and without duplicates,
  the normalised forms of the \<open>src\<close> texts that it keeps. A \<open>src\<close> beginning with
  \<open>data:\<close> is skipped. In the others the four entities are replaced, then: a
  protocol-relative one gets \<open>https:\<close> in front, whatever the base URL is; a
  root-relative one is resolved against a non-empty base URL, by the base's scheme and
  host for the \<open>/_next/image?url=\<close> proxy path and by \<open>urljoin\<close> otherwise, and is
  skipped when there is no base URL or it is empty; any other one is kept as it is (with
  the entities replaced) if it begins with \<open>http\<close>, and skipped if not. So every
  result begins with \<open>http\<close> or is such a resolution against the base URL.
\<close>

theorem extract_image_urls_first_seen_normalized:
  "extract_image_urls lib html base
     = first_seen (List.map_filter (normalize_image_url lib base) (image_srcs html))
   \<and> distinct (extract_image_urls lib html base)
   \<and> (\<forall>u \<in> set (extract_image_urls lib html base).
         \<exists>c \<in> set (image_srcs html). normalize_image_url lib base c = Some u)
   \<and> (startswith c (str ''data:'') \<longrightarrow> normalize_image_url lib base c = None)
   \<and> (\<not> startswith c (str ''data:'') \<and> startswith (decode_url_entities c) (str ''//'')
        \<longrightarrow> normalize_image_url lib base c = Some (str ''https:'' @ decode_url_entities c))
   \<and> (\<not> startswith c (str ''data:'') \<and> \<not> startswith (decode_url_entities c) (str ''//'')
        \<and> startswith (decode_url_entities c) (str ''/'') \<and> b \<noteq> []
        \<longrightarrow> normalize_image_url lib (Some b) c
              = Some (if py_in (str ''/_next/image?url='') (decode_url_entities c)
                      then urlparse_scheme lib b @ str ''://'' @ urlparse_netloc lib b
                           @ decode_url_entities c
                      else urljoin lib b (decode_url_entities c)))
   \<and> (normalize_image_url lib base c = Some u
        \<longrightarrow> \<not> startswith c (str ''data:'')
            \<and> (startswith u (str ''http'')
               \<or> (startswith (decode_url_entities c) (str ''/'')
                   \<and> (\<exists>b. base = Some b \<and> b \<noteq> []
                        \<and> (u = urljoin lib b (decode_url_entities c)
                           \<or> u = urlparse_scheme lib b @ str ''://'' @ urlparse_netloc lib b
                                  @ decode_url_entities c)))))
   \<and> (\<not> startswith c (str ''data:'') \<and> \<not> startswith (decode_url_entities c) (str ''//'')
        \<and> startswith (decode_url_entities c) (str ''/'') \<and> (base = None \<or> base = Some [])
        \<longrightarrow> normalize_image_url lib base c = None)
   \<and> (\<not> startswith c (str ''data:'') \<and> \<not> startswith (decode_url_entities c) (str ''/'')
        \<and> startswith (decode_url_entities c) (str ''http'')
        \<longrightarrow> normalize_image_url lib base c = Some (decode_url_entities c))
   \<and> (\<not> startswith (decode_url_entities c) (str ''/'')
        \<and> \<not> startswith (decode_url_entities c) (str ''http'')
        \<longrightarrow> normalize_image_url lib base c = None)
   \<and> (image_srcs html = [c] \<and> normalize_image_url lib base c = Some u
        \<longrightarrow> extract_image_urls lib html base = [u])
   \<and> (image_srcs html = [c] \<and> normalize_image_url lib base c = None
        \<longrightarrow> extract_image_urls lib html base = [])"
proof (intro conjI)
  show "extract_image_urls lib html base
          = first_seen (List.map_filter (normalize_image_url lib base) (image_srcs html))"
    by (rule extract_image_urls_first_seen)
  show "distinct (extract_image_urls lib html base)"
    by (simp add: extract_image_urls_first_seen first_seen_def)
  show "\<forall>u \<in> set (extract_image_urls lib html base).
          \<exists>c \<in> set (image_srcs html). normalize_image_url lib base c = Some u"
    by (auto simp: extract_image_urls_first_seen first_seen_def List.map_filter_def)
  show "startswith c (str ''data:'') \<longrightarrow> normalize_image_url lib base c = None"
    by (simp add: normalize_image_url_def)
  show "\<not> startswith c (str ''data:'') \<and> startswith (decode_url_entities c) (str ''//'')
          \<longrightarrow> normalize_image_url lib base c = Some (str ''https:'' @ decode_url_entities c)"
    by (simp add: normalize_image_url_def)
  show "\<not> startswith c (str ''data:'') \<and> \<not> startswith (decode_url_entities c) (str ''//'')
          \<and> startswith (decode_url_entities c) (str ''/'') \<and> b \<noteq> []
          \<longrightarrow> normalize_image_url lib (Some b) c
                = Some (if py_in (str ''/_next/image?url='') (decode_url_entities c)
                        then urlparse_scheme lib b @ str ''://'' @ urlparse_netloc lib b
                             @ decode_url_entities c
                        else urljoin lib b (decode_url_entities c))"
    by (simp add: normalize_image_url_def)
  show "normalize_image_url lib base c = Some u
          \<longrightarrow> \<not> startswith c (str ''data:'')
              \<and> (startswith u (str ''http'')
                 \<or> (startswith (decode_url_entities c) (str ''/'')
                     \<and> (\<exists>b. base = Some b \<and> b \<noteq> []
                          \<and> (u = urljoin lib b (decode_url_entities c)
                             \<or> u = urlparse_scheme lib b @ str ''://'' @ urlparse_netloc lib b
                                    @ decode_url_entities c))))"
    using normalize_cases by blast
  show "\<not> startswith c (str ''data:'') \<and> \<not> startswith (decode_url_entities c) (str ''//'')
        \<and> startswith (decode_url_entities c) (str ''/'') \<and> (base = None \<or> base = Some [])
        \<longrightarrow> normalize_image_url lib base c = None"
    by (auto simp: normalize_image_url_def Let_def)
  show "\<not> startswith c (str ''data:'') \<and> \<not> startswith (decode_url_entities c) (str ''/'')
        \<and> startswith (decode_url_entities c) (str ''http'')
        \<longrightarrow> normalize_image_url lib base c = Some (decode_url_entities c)"
    using slash_prefix [of "decode_url_entities c"]
    by (auto simp: normalize_image_url_def Let_def)
  show "\<not> startswith (decode_url_entities c) (str ''/'')
        \<and> \<not> startswith (decode_url_entities c) (str ''http'')
        \<longrightarrow> normalize_image_url lib base c = None"
    using slash_prefix [of "decode_url_entities c"]
    by (auto simp: normalize_image_url_def Let_def)
  show "image_srcs html = [c] \<and> normalize_image_url lib base c = Some u
        \<longrightarrow> extract_image_urls lib html base = [u]"
    by (simp add: extract_image_urls_def)
  show "image_srcs html = [c] \<and> normalize_image_url lib base c = None
        \<longrightarrow> extract_image_urls lib html base = []"
    by (simp add: extract_image_urls_def)
qed

theorem extract_image_urls_first_seen_normalized_witness:
  "extract_image_urls plain_urllib
     (str ''<img src=\"//cdn.example.com/a.png\"><p>x</p><img src=\"//cdn.example.com/a.png\">'')
     (Some (str ''https://site.example.com/x'')) = [str ''https://cdn.example.com/a.png'']
   \<and> startswith (str ''data:image/png;base64,AA'') (str ''data:'')
   \<and> normalize_image_url plain_urllib (Some (str ''https://site.example.com/x''))
         (str ''data:image/png;base64,AA'') = None
   \<and> normalize_image_url plain_urllib (Some (str ''https://site.example.com/x''))
         (str ''/p/a.png?x=1&amp;y=2'') = Some (str ''https://site.example.com/p/a.png?x=1&y=2'')
   \<and> normalize_image_url plain_urllib None (str ''//cdn.example.com/a.png'')
       = Some (str ''https://cdn.example.com/a.png'')
   \<and> \<not> startswith (str ''//cdn.example.com/a.png'') (str ''data:'')
   \<and> startswith (str ''https://cdn.example.com/a.png'') (str ''http'')
   \<and> normalize_image_url plain_urllib None (str ''/p/a.png'') = None
   \<and> normalize_image_url plain_urllib None (str ''https://h/a.png?x=1&amp;y=2'')
       = Some (str ''https://h/a.png?x=1&y=2'')
   \<and> normalize_image_url plain_urllib (Some (str ''https://site.example.com/x''))
         (str ''img/a.png'') = None
   \<and> extract_image_urls plain_urllib (str ''<img src=\"https://h/a.png?x=1&amp;y=2\">'') None
       = [str ''https://h/a.png?x=1&y=2'']
   \<and> extract_image_urls plain_urllib (str ''<img src=\"img/a.png\">'')
         (Some (str ''https://site.example.com/x'')) = []"
proof -
  let ?b = "str ''https://site.example.com/x''"
  let ?p = "str ''//cdn.example.com/a.png''"
  let ?h = "str ''https://h/a.png?x=1&amp;y=2''"
  let ?hd = "str ''https://h/a.png?x=1&y=2''"
  let ?r = "str ''img/a.png''"
  let ?s = "str ''/p/a.png''"
  have e: "extract_image_urls plain_urllib
     (str ''<img src=\"//cdn.example.com/a.png\"><p>x</p><img src=\"//cdn.example.com/a.png\">'')
     (Some ?b) = [str ''https://cdn.example.com/a.png'']"
    by code_simp
  have d: "startswith (str ''data:image/png;base64,AA'') (str ''data:'')"
    by code_simp
  have r: "\<not> startswith (str ''/p/a.png?x=1&amp;y=2'') (str ''data:'')
           \<and> \<not> startswith (decode_url_entities (str ''/p/a.png?x=1&amp;y=2'')) (str ''//'')
           \<and> startswith (decode_url_entities (str ''/p/a.png?x=1&amp;y=2'')) (str ''/'')
           \<and> ?b \<noteq> []"
    by code_simp
  have v: "(if py_in (str ''/_next/image?url='') (decode_url_entities (str ''/p/a.png?x=1&amp;y=2''))
            then urlparse_scheme plain_urllib ?b @ str ''://'' @ urlparse_netloc plain_urllib ?b
                 @ decode_url_entities (str ''/p/a.png?x=1&amp;y=2'')
            else urljoin plain_urllib ?b (decode_url_entities (str ''/p/a.png?x=1&amp;y=2'')))
           = str ''https://site.example.com/p/a.png?x=1&y=2''"
    by code_simp
  have q: "\<not> startswith ?p (str ''data:'') \<and> startswith (decode_url_entities ?p) (str ''//'')"
    by code_simp
  have qv: "str ''https:'' @ decode_url_entities ?p = str ''https://cdn.example.com/a.png''"
    by code_simp
  have sh: "startswith (str ''https://cdn.example.com/a.png'') (str ''http'')"
    by code_simp
  have rs: "\<not> startswith ?s (str ''data:'') \<and> \<not> startswith (decode_url_entities ?s) (str ''//'')
            \<and> startswith (decode_url_entities ?s) (str ''/'')"
    by code_simp
  have hh: "\<not> startswith ?h (str ''data:'') \<and> \<not> startswith (decode_url_entities ?h) (str ''/'')
            \<and> startswith (decode_url_entities ?h) (str ''http'')"
    by code_simp
  have hv: "decode_url_entities ?h = ?hd" by code_simp
  have rr: "\<not> startswith (decode_url_entities ?r) (str ''/'')
            \<and> \<not> startswith (decode_url_entities ?r) (str ''http'')"
    by code_simp
  have ih: "image_srcs (str ''<img src=\"https://h/a.png?x=1&amp;y=2\">'') = [?h]" by code_simp
  have ir: "image_srcs (str ''<img src=\"img/a.png\">'') = [?r]" by code_simp
  note t1 = extract_image_urls_first_seen_normalized
    [of plain_urllib "[]" "Some ?b" "str ''data:image/png;base64,AA''" ?b "[]"]
  note t2 = extract_image_urls_first_seen_normalized
    [of plain_urllib "[]" "Some ?b" "str ''/p/a.png?x=1&amp;y=2''" ?b "[]"]
  note t3 = extract_image_urls_first_seen_normalized
    [of plain_urllib "[]" None ?p ?b "str ''https://cdn.example.com/a.png''"]
  note t4 = extract_image_urls_first_seen_normalized [of plain_urllib "[]" None ?s ?b "[]"]
  note t5 = extract_image_urls_first_seen_normalized
    [of plain_urllib "str ''<img src=\"https://h/a.png?x=1&amp;y=2\">''" None ?h ?b ?hd]
  note t6 = extract_image_urls_first_seen_normalized
    [of plain_urllib "str ''<img src=\"img/a.png\">''" "Some ?b" ?r ?b "[]"]
  from t1 d have n1: "normalize_image_url plain_urllib (Some ?b)
                        (str ''data:image/png;base64,AA'') = None"
    by blast
  from t2 r have "normalize_image_url plain_urllib (Some ?b) (str ''/p/a.png?x=1&amp;y=2'')
      = Some (if py_in (str ''/_next/image?url='') (decode_url_entities (str ''/p/a.png?x=1&amp;y=2''))
            then urlparse_scheme plain_urllib ?b @ str ''://'' @ urlparse_netloc plain_urllib ?b
                 @ decode_url_entities (str ''/p/a.png?x=1&amp;y=2'')
            else urljoin plain_urllib ?b (decode_url_entities (str ''/p/a.png?x=1&amp;y=2'')))"
    by blast
  with v have n2: "normalize_image_url plain_urllib (Some ?b) (str ''/p/a.png?x=1&amp;y=2'')
      = Some (str ''https://site.example.com/p/a.png?x=1&y=2'')"
    by simp
  from t3 q have "normalize_image_url plain_urllib None ?p
                    = Some (str ''https:'' @ decode_url_entities ?p)"
    by blast
  with qv have n3: "normalize_image_url plain_urllib None ?p
                      = Some (str ''https://cdn.example.com/a.png'')"
    by simp
  from t3 n3 have n4: "\<not> startswith ?p (str ''data:'')" by blast
  from t4 rs have n5: "normalize_image_url plain_urllib None ?s = None" by blast
  from t5 hh have "normalize_image_url plain_urllib None ?h = Some (decode_url_entities ?h)"
    by blast
  with hv have n6: "normalize_image_url plain_urllib None ?h = Some ?hd" by simp
  from t6 rr have n7: "normalize_image_url plain_urllib (Some ?b) ?r = None" by blast
  from t5 ih n6 have n8: "extract_image_urls plain_urllib
      (str ''<img src=\"https://h/a.png?x=1&amp;y=2\">'') None = [?hd]"
    by blast
  from t6 ir n7 have n9: "extract_image_urls plain_urllib (str ''<img src=\"img/a.png\">'')
      (Some ?b) = []"
    by blast
  from e d n1 n2 n3 n4 sh n5 n6 n7 n8 n9 show ?thesis by blast
qed

section \<open>File names are safe\<close>

lemma str_underscore: "str ''_'' = [95]"
  by (simp add: str_def)

lemma str_article: "str ''article'' = [97, 114, 116, 105, 99, 108, 101]"
  by (simp add: str_def)

lemma article_ok: "\<forall>c \<in> set (str ''article''). c \<notin> set forbidden_chars \<and> \<not> py_isspace c"
  by (simp add: str_article py_isspace_def forbidden_chars_def)

lemma sanitize_alt:
  "sanitize_filename title =
     (if take 100 (sanitize_subs title) \<noteq> [] then take 100 (sanitize_subs title)
      else str ''article'')"
  unfolding sanitize_filename_def sanitize_subs_def Let_def by auto

lemma sanitize_subs_chars:
  "\<forall>c \<in> set (sanitize_subs title). c \<notin> set forbidden_chars \<and> \<not> py_isspace c"
proof -
  let ?f = "re_sub (One (OneOf forbidden_chars)) (\<lambda>e. []) title"
  have u: "\<forall>x \<in> set (str ''_''). \<not> in_cls Space x \<and> x \<notin> set forbidden_chars"
    by (simp add: str_underscore py_isspace_def forbidden_chars_def)
  have f: "\<forall>x \<in> set ?f. x \<notin> set forbidden_chars"
    by (simp add: re_sub_one_delete)
  from re_sub_plus_chars [OF u f] show ?thesis
    unfolding sanitize_subs_def by auto
qed

lemma sanitize_subs_empty:
  "filter (\<lambda>c. c \<notin> set forbidden_chars) title = [] \<Longrightarrow> sanitize_subs title = []"
  unfolding sanitize_subs_def re_sub_one_delete by (simp del: re_sub.simps add: re_sub_plus_Nil)

lemma runs_to_underscore_space:
  "py_isspace x \<Longrightarrow>
     runs_to_underscore (x # t) = str ''_'' @ runs_to_underscore (dropWhile py_isspace t)"
proof (induction t arbitrary: x)
  case Nil
  then show ?case by simp
next
  case (Cons y t)
  show ?case
  proof (cases "py_isspace y")
    case True
    from Cons.IH [OF True] Cons.prems True show ?thesis by simp
  next
    case False
    with Cons.prems show ?thesis by simp
  qed
qed

lemma runs_to_underscore_other:
  "\<not> py_isspace x \<Longrightarrow> runs_to_underscore (x # t) = x # runs_to_underscore t"
  by (cases t) simp_all

lemma re_sub_space_runs: "re_sub (Plus Space) (\<lambda>e. str ''_'') s = runs_to_underscore s"
proof (induction s rule: length_induct)
  case (1 s)
  show ?case
  proof (cases s)
    case Nil
    then show ?thesis by (simp only: re_sub_plus_Nil) simp
  next
    case (Cons x t)
    show ?thesis
    proof (cases "py_isspace x")
      case True
      let ?d = "dropWhile py_isspace t"
      have "length ?d < length s" using Cons dropWhile_shorter [of py_isspace t] by simp
      then have "re_sub (Plus Space) (\<lambda>e. str ''_'') ?d = runs_to_underscore ?d"
        using "1.IH" by blast
      moreover have "dropWhile (in_cls Space) t = ?d"
        by (rule arg_cong [of _ _ "\<lambda>P. dropWhile P t"]) (simp add: fun_eq_iff)
      moreover have "re_sub (Plus Space) (\<lambda>e. str ''_'') s
                       = str ''_'' @ re_sub (Plus Space) (\<lambda>e. str ''_'') (dropWhile (in_cls Space) t)"
        unfolding Cons re_sub_plus_Cons using True by simp
      ultimately show ?thesis
        using runs_to_underscore_space [OF True, of t] Cons by simp
    next
      case False
      have "length t < length s" using Cons by simp
      then have "re_sub (Plus Space) (\<lambda>e. str ''_'') t = runs_to_underscore t"
        using "1.IH" by blast
      moreover have "re_sub (Plus Space) (\<lambda>e. str ''_'') s
                       = x # re_sub (Plus Space) (\<lambda>e. str ''_'') t"
        unfolding Cons re_sub_plus_Cons using False by simp
      ultimately show ?thesis
        using runs_to_underscore_other [OF False, of t] Cons by simp
    qed
  qed
qed

lemma sanitize_subs_runs:
  "sanitize_subs title = runs_to_underscore (filter (\<lambda>c. c \<notin> set forbidden_chars) title)"
  unfolding sanitize_subs_def re_sub_one_delete re_sub_space_runs by simp

lemma runs_to_underscore_id: "\<forall>c \<in> set s. \<not> py_isspace c \<Longrightarrow> runs_to_underscore s = s"
  by (induction s) (simp_all add: runs_to_underscore_other)

text \<open>
  C10: for every title the sanitizer returns a non-empty string of at most 100
  characters that contains none of \<open>< > : " / \ | ? *\<close> and no whitespace character,
  and it returns \<open>article\<close> when removing the forbidden characters leaves nothing.
  The result is determined by the title: it is the first 100 characters of the title with
  the forbidden characters deleted and then every run of whitespace replaced by a single
  underscore, or \<open>article\<close> if that is empty. In particular a non-empty title of at
  most 100 characters without forbidden and whitespace characters is returned unchanged.
\<close>

theorem sanitize_filename_safe:
  "sanitize_filename title \<noteq> []
   \<and> length (sanitize_filename title) \<le> 100
   \<and> (\<forall>c \<in> set (sanitize_filename title). c \<notin> set forbidden_chars \<and> \<not> py_isspace c)
   \<and> (filter (\<lambda>c. c \<notin> set forbidden_chars) title = []
        \<longrightarrow> sanitize_filename title = str ''article'')
   \<and> sanitize_filename title
       = (if take 100 (runs_to_underscore (filter (\<lambda>c. c \<notin> set forbidden_chars) title)) = []
          then str ''article''
          else take 100 (runs_to_underscore (filter (\<lambda>c. c \<notin> set forbidden_chars) title)))
   \<and> (title \<noteq> [] \<and> length title \<le> 100
        \<and> (\<forall>c \<in> set title. c \<notin> set forbidden_chars \<and> \<not> py_isspace c)
        \<longrightarrow> sanitize_filename title = title)"
proof (intro conjI)
  show "sanitize_filename title \<noteq> []" by (simp add: sanitize_alt str_article)
  show "length (sanitize_filename title) \<le> 100" by (simp add: sanitize_alt str_article)
  show "\<forall>c \<in> set (sanitize_filename title). c \<notin> set forbidden_chars \<and> \<not> py_isspace c"
    using sanitize_subs_chars [of title] article_ok by (auto simp: sanitize_alt dest: in_set_takeD)
  show "filter (\<lambda>c. c \<notin> set forbidden_chars) title = []
          \<longrightarrow> sanitize_filename title = str ''article''"
    by (simp add: sanitize_alt sanitize_subs_empty)
  show "sanitize_filename title
       = (if take 100 (runs_to_underscore (filter (\<lambda>c. c \<notin> set forbidden_chars) title)) = []
          then str ''article''
          else take 100 (runs_to_underscore (filter (\<lambda>c. c \<notin> set forbidden_chars) title)))"
    by (simp add: sanitize_alt sanitize_subs_runs)
  show "title \<noteq> [] \<and> length title \<le> 100
        \<and> (\<forall>c \<in> set title. c \<notin> set forbidden_chars \<and> \<not> py_isspace c)
        \<longrightarrow> sanitize_filename title = title"
  proof
    assume a: "title \<noteq> [] \<and> length title \<le> 100
        \<and> (\<forall>c \<in> set title. c \<notin> set forbidden_chars \<and> \<not> py_isspace c)"
    then have "filter (\<lambda>c. c \<notin> set forbidden_chars) title = title" by simp
    moreover from a have "runs_to_underscore title = title" by (simp add: runs_to_underscore_id)
    ultimately have "sanitize_subs title = title" by (simp add: sanitize_subs_runs)
    with a show "sanitize_filename title = title" by (simp add: sanitize_alt)
  qed
qed

theorem sanitize_filename_safe_witness:
  "filter (\<lambda>c. c \<notin> set forbidden_chars) (str ''<?>'') = []
   \<and> sanitize_filename (str ''<?>'') = str ''article''
   \<and> length (sanitize_filename (str ''<?>'')) \<le> 100
   \<and> take 100 (runs_to_underscore
         (filter (\<lambda>c. c \<notin> set forbidden_chars) (str ''My  cool: title?''))) = str ''My_cool_title''
   \<and> sanitize_filename (str ''My  cool: title?'') = str ''My_cool_title''
   \<and> sanitize_filename (str ''a.b'') = str ''a.b''"
proof -
  have h: "filter (\<lambda>c. c \<notin> set forbidden_chars) (str ''<?>'') = []"
    by (simp add: str_def forbidden_chars_def)
  have r: "take 100 (runs_to_underscore
         (filter (\<lambda>c. c \<notin> set forbidden_chars) (str ''My  cool: title?''))) = str ''My_cool_title''"
    by code_simp
  have n: "str ''My_cool_title'' \<noteq> []" by (simp add: str_def)
  have s: "str ''a.b'' \<noteq> [] \<and> length (str ''a.b'') \<le> 100
        \<and> (\<forall>c \<in> set (str ''a.b''). c \<notin> set forbidden_chars \<and> \<not> py_isspace c)"
    by (simp add: str_def forbidden_chars_def py_isspace_def)
  note a = sanitize_filename_safe [of "str ''<?>''"]
  note b = sanitize_filename_safe [of "str ''My  cool: title?''"]
  note c = sanitize_filename_safe [of "str ''a.b''"]
  from a h have 1: "sanitize_filename (str ''<?>'') = str ''article''"
    and 2: "length (sanitize_filename (str ''<?>'')) \<le> 100" by blast+
  from b have "sanitize_filename (str ''My  cool: title?'')
       = (if take 100 (runs_to_underscore
               (filter (\<lambda>c. c \<notin> set forbidden_chars) (str ''My  cool: title?''))) = []
          then str ''article''
          else take 100 (runs_to_underscore
               (filter (\<lambda>c. c \<notin> set forbidden_chars) (str ''My  cool: title?''))))"
    by blast
  with r n have 3: "sanitize_filename (str ''My  cool: title?'') = str ''My_cool_title''"
    by simp
  from c s have 4: "sanitize_filename (str ''a.b'') = str ''a.b''" by blast
  from h 1 2 r 3 4 show ?thesis by blast
qed

end
